theory Spec2Isabelle
  imports Complex_Main
begin

section \<open>Shared types (types.ts)\<close>

text \<open>
  The type \<open>number\<close> of the code: a finite number, NaN, or one of the infinities.
  The engine only stores and copies numbers, so a finite number is given by the real it
  stands for.
\<close>

datatype JSNumber = Finite real | NaN | PosInfinity | NegInfinity

text \<open>
  The records below take the type of their numbers as a parameter. The engine works
  with \<open>JSNumber\<close>. The SceneManager is modelled for objects whose numbers are
  finite, with \<open>real\<close>: a JSON text holds a finite number exactly and writes
  \<open>null\<close> for any other, and the one sum the SceneManager computes is taken
  without rounding.
\<close>

type_synonym 'n Vector3 = "'n \<times> 'n \<times> 'n"

datatype ShapeType = BOX | SPHERE | CYLINDER | CONE | PLANE | MESH

text \<open>
  The geometry payload of an object. The mesh library is not part of the repository, so
  a geometry is the term that says how it was built: the constructor call with its
  arguments, or the boolean evaluation with its two operands and their world transforms.
\<close>

datatype CSGOperation = ADDITION | SUBTRACTION | INTERSECTION

datatype 'n Geometry =
    BoxGeometry 'n 'n 'n
  | SphereGeometry 'n nat nat
  | CylinderGeometry 'n 'n 'n nat
  | Evaluated CSGOperation "'n Geometry" "'n Vector3 \<times> 'n Vector3 \<times> 'n Vector3"
      "'n Geometry" "'n Vector3 \<times> 'n Vector3 \<times> 'n Vector3"

text \<open>
  \<open>interface CADObject\<close>. The optional fields (\<open>args?\<close>, \<open>selected?\<close>,
  \<open>visible?\<close>, \<open>geometryData?\<close>) are options; \<open>None\<close> is the absent field.
\<close>

record 'n CADObject =
  id :: string
  name :: string
  type :: ShapeType
  position :: "'n Vector3"
  rotation :: "'n Vector3"
  scale :: "'n Vector3"
  color :: string
  args :: "'n list option"
  selected :: "bool option"
  visible :: "bool option"
  geometryData :: "'n Geometry option"

text \<open>
  \<open>Partial<CADObject>\<close>: every field may be absent. \<open>None\<close> stands for a field that
  is missing, \<open>undefined\<close> or \<open>null\<close>; the code treats the three alike wherever it
  reads one.
\<close>

record PartialCADObject =
  p_id :: "string option"
  p_name :: "string option"
  p_type :: "ShapeType option"
  p_position :: "real Vector3 option"
  p_rotation :: "real Vector3 option"
  p_scale :: "real Vector3 option"
  p_color :: "string option"
  p_args :: "real list option"
  p_selected :: "bool option"
  p_visible :: "bool option"
  p_geometryData :: "real Geometry option"

datatype AIActionType = CREATE | UPDATE | DELETE | CLEAR | UNDO | REDO | FOCUS

record AICommand =
  action :: AIActionType
  targetId :: "string option"
  reasoning :: "string option"
  objectData :: "PartialCADObject option"

section \<open>JavaScript values the code relies on\<close>

text \<open>
  \<open>a || b\<close> on an optional string: the empty string is falsy, like the absent one.
\<close>

definition truthy_str :: "string option \<Rightarrow> bool" where
  "truthy_str s = (case s of None \<Rightarrow> False | Some t \<Rightarrow> t \<noteq> [])"

definition or_str :: "string option \<Rightarrow> string option \<Rightarrow> string option" where
  "or_str a b = (if truthy_str a then a else b)"

text \<open>The decimal numeral of a counter, as a template literal prints it.\<close>

definition digit_char :: "nat \<Rightarrow> char" where
  "digit_char d = ''0123456789'' ! d"

function string_of_nat :: "nat \<Rightarrow> string" where
  "string_of_nat n =
     (if n < 10 then [digit_char n]
      else string_of_nat (n div 10) @ [digit_char (n mod 10)])"
  by pat_completeness auto
termination
  by (relation "measure (\<lambda>n. n)") auto

declare string_of_nat.simps [simp del]

definition digit_value :: "char \<Rightarrow> nat" where
  "digit_value c = length (takeWhile (\<lambda>x. x \<noteq> c) ''0123456789'')"

definition nat_of_string :: "string \<Rightarrow> nat" where
  "nat_of_string s = foldl (\<lambda>a c. 10 * a + digit_value c) 0 s"

text \<open>
  A JavaScript \<open>Map\<close> keeps its entries in insertion order; \<open>set\<close> on a key that is
  present replaces the value where it stands, \<open>set\<close> on a new key appends.
\<close>

type_synonym ('k, 'v) js_map = "('k \<times> 'v) list"

fun map_get :: "('k, 'v) js_map \<Rightarrow> 'k \<Rightarrow> 'v option" where
  "map_get [] k = None"
| "map_get ((k', v) # m) k = (if k' = k then Some v else map_get m k)"

fun map_set :: "'k \<Rightarrow> 'v \<Rightarrow> ('k, 'v) js_map \<Rightarrow> ('k, 'v) js_map" where
  "map_set k v [] = [(k, v)]"
| "map_set k v ((k', v') # m) =
     (if k' = k then (k, v) # m else (k', v') # map_set k v m)"

definition map_delete :: "'k \<Rightarrow> ('k, 'v) js_map \<Rightarrow> ('k, 'v) js_map" where
  "map_delete k m = filter (\<lambda>e. fst e \<noteq> k) m"

definition map_has :: "('k, 'v) js_map \<Rightarrow> 'k \<Rightarrow> bool" where
  "map_has m k = (map_get m k \<noteq> None)"

definition map_values :: "('k, 'v) js_map \<Rightarrow> 'v list" where
  "map_values m = map snd m"

section \<open>SceneManager (backend/engine/SceneManager.ts)\<close>

text \<open>
  The snapshots are JSON texts. A text is represented by what \<open>JSON.parse\<close> makes of
  it, which is all \<open>loadScene\<close> looks at: the empty string (the one falsy text),
  a text that does not parse, a text that parses to something that is not an array, and
  a text that parses to an array of objects. \<open>JSON.stringify\<close> of the object list is
  the last kind, holding the list: the fields of the model (strings, finite numbers,
  booleans, lists, a geometry given as plain data) are written and read back exactly.
\<close>

datatype json_text = EmptyText | Malformed | NonArray | ObjArray "real CADObject list"

definition JSON_stringify :: "real CADObject list \<Rightarrow> json_text" where
  "JSON_stringify objs = ObjArray objs"

record SceneManager =
  objects :: "(string, real CADObject) js_map"
  history :: "json_text list"
  redoStack :: "json_text list"

definition maxHistory :: nat where
  "maxHistory = 20"

definition new_SceneManager :: SceneManager where
  "new_SceneManager = \<lparr>objects = [], history = [], redoStack = []\<rparr>"

definition getObjects :: "SceneManager \<Rightarrow> real CADObject list" where
  "getObjects s = map_values (objects s)"

definition getObject :: "SceneManager \<Rightarrow> string \<Rightarrow> real CADObject option" where
  "getObject s i = map_get (objects s) i"

definition exportScene :: "SceneManager \<Rightarrow> json_text" where
  "exportScene s = JSON_stringify (map_values (objects s))"

text \<open>\<open>loaded.forEach((obj) => this.objects.set(obj.id, obj))\<close>\<close>

definition set_all ::
  "real CADObject list \<Rightarrow> (string, real CADObject) js_map \<Rightarrow> (string, real CADObject) js_map" where
  "set_all loaded m = foldl (\<lambda>m obj. map_set (id obj) obj m) m loaded"

definition loadScene :: "json_text \<Rightarrow> SceneManager \<Rightarrow> SceneManager" where
  "loadScene json s =
     (case json of
        ObjArray loaded \<Rightarrow> s\<lparr>objects := set_all loaded []\<rparr>
      | NonArray \<Rightarrow> s
      | Malformed \<Rightarrow> s
      | EmptyText \<Rightarrow> s)"

definition saveState :: "SceneManager \<Rightarrow> SceneManager" where
  "saveState s =
     (let state = exportScene s;
          h = history s @ [state];
          h' = (if length h > maxHistory then tl h else h)
      in s\<lparr>history := h', redoStack := []\<rparr>)"

text \<open>
  The loop of \<open>getUniqueName\<close>: count up until the candidate is free. \<open>taken\<close> is
  the set of names in use, given by a list of them.
\<close>

function next_candidate :: "string list \<Rightarrow> string \<Rightarrow> nat \<Rightarrow> string" where
  "next_candidate taken baseName counter =
     (if baseName @ string_of_nat counter \<in> set taken
      then next_candidate taken baseName (counter + 1)
      else baseName @ string_of_nat counter)"
  by pat_completeness auto

text \<open>
  The loop ends because the numerals of different counters differ, so only finitely many
  counters can be taken.
\<close>

lemma digit_value_digit_char: "d < 10 \<Longrightarrow> digit_value (digit_char d) = d"
proof -
  assume "d < 10"
  then have "d \<in> {0, 1, 2, 3, 4, 5, 6, 7, 8, 9}"
    by auto
  then show ?thesis
    by (auto simp: digit_value_def digit_char_def)
qed

lemma nat_of_string_snoc: "nat_of_string (s @ [c]) = 10 * nat_of_string s + digit_value c"
  by (simp add: nat_of_string_def)

lemma nat_of_string_of_nat: "nat_of_string (string_of_nat n) = n"
proof (induction n rule: string_of_nat.induct)
  case (1 n)
  show ?case
  proof (cases "n < 10")
    case True
    then show ?thesis
      by (simp add: string_of_nat.simps [of n] nat_of_string_def digit_value_digit_char)
  next
    case False
    with 1 show ?thesis
      by (simp add: string_of_nat.simps [of n] nat_of_string_snoc digit_value_digit_char)
  qed
qed

lemma string_of_nat_inj: "string_of_nat m = string_of_nat n \<Longrightarrow> m = n"
  by (metis nat_of_string_of_nat)

lemma finite_taken_counters: "finite {k. baseName @ string_of_nat k \<in> set taken}"
proof -
  have "inj (\<lambda>k. baseName @ string_of_nat k)"
    by (auto simp: inj_def dest: string_of_nat_inj)
  then show ?thesis
    by (metis List.finite_set finite_vimageI vimage_def)
qed

termination next_candidate
proof (relation "measure (\<lambda>(taken, baseName, counter).
         card {k. counter \<le> k \<and> baseName @ string_of_nat k \<in> set taken})")
  show "wf (measure (\<lambda>(taken, baseName, counter).
         card {k. counter \<le> k \<and> baseName @ string_of_nat k \<in> set taken}))"
    by simp
next
  fix taken :: "string list" and baseName :: string and counter :: nat
  assume hit: "baseName @ string_of_nat counter \<in> set taken"
  let ?S = "\<lambda>c. {k. c \<le> k \<and> baseName @ string_of_nat k \<in> set taken}"
  have fin: "finite (?S counter)"
    using finite_taken_counters [of baseName taken] by (rule rev_finite_subset) auto
  have "?S (counter + 1) \<subseteq> ?S counter" by auto
  moreover have "counter \<in> ?S counter" using hit by simp
  moreover have "counter \<notin> ?S (counter + 1)" by simp
  ultimately have "?S (counter + 1) \<subset> ?S counter" by blast
  then have "card (?S (counter + 1)) < card (?S counter)"
    using fin by (rule psubset_card_mono [rotated])
  then show "((taken, baseName, counter + 1), (taken, baseName, counter))
       \<in> measure (\<lambda>(taken, baseName, counter).
           card {k. counter \<le> k \<and> baseName @ string_of_nat k \<in> set taken})"
    by simp
qed

declare next_candidate.simps [simp del]

text \<open>
  \<open>getUniqueName(baseName, excludeId?)\<close>. The names of all objects whose \<open>id\<close> field
  differs from \<open>excludeId\<close> are taken; an absent \<open>excludeId\<close> excludes nothing.
\<close>

definition taken_names :: "SceneManager \<Rightarrow> string option \<Rightarrow> string list" where
  "taken_names s excludeId =
     map name (filter (\<lambda>obj. Some (id obj) \<noteq> excludeId) (map_values (objects s)))"

definition getUniqueName :: "SceneManager \<Rightarrow> string \<Rightarrow> string option \<Rightarrow> string" where
  "getUniqueName s baseName excludeId =
     (let taken = taken_names s excludeId
      in if baseName \<notin> set taken then baseName else next_candidate taken baseName 1)"

definition renameObject :: "string \<Rightarrow> string \<Rightarrow> SceneManager \<Rightarrow> SceneManager" where
  "renameObject i newName s =
     (case map_get (objects s) i of
        None \<Rightarrow> s
      | Some obj \<Rightarrow>
          if name obj = newName then s
          else
            let s1 = saveState s;
                uniqueName = getUniqueName s1 newName (Some i)
            in s1\<lparr>objects := map_set i (obj\<lparr>name := uniqueName\<rparr>) (objects s1)\<rparr>)"

text \<open>
  \<open>duplicateObject\<close>. The new identifier is built from \<open>Date.now()\<close> and
  \<open>Math.random()\<close>; it is the parameter \<open>newId\<close>.
\<close>

definition duplicateObject :: "string \<Rightarrow> string \<Rightarrow> SceneManager \<Rightarrow> SceneManager" where
  "duplicateObject newId i s =
     (case map_get (objects s) i of
        None \<Rightarrow> s
      | Some obj \<Rightarrow>
          let s1 = saveState s;
              newPos = (case position obj of (x, y, z) \<Rightarrow> (x + 1.5, y, z));
              newName = getUniqueName s1 (name obj) None;
              newObj = obj\<lparr>id := newId, name := newName, position := newPos,
                         selected := Some False\<rparr>
          in s1\<lparr>objects := map_set newId newObj (objects s1)\<rparr>)"

definition undo :: "SceneManager \<Rightarrow> SceneManager" where
  "undo s =
     (if length (history s) = 0 then s
      else
        let s1 = s\<lparr>redoStack := redoStack s @ [exportScene s]\<rparr>;
            previousState = last (history s1);
            s2 = s1\<lparr>history := butlast (history s1)\<rparr>
        in if previousState \<noteq> EmptyText then loadScene previousState s2 else s2)"

definition redo :: "SceneManager \<Rightarrow> SceneManager" where
  "redo s =
     (if length (redoStack s) = 0 then s
      else
        let s1 = s\<lparr>history := history s @ [exportScene s]\<rparr>;
            nextState = last (redoStack s1);
            s2 = s1\<lparr>redoStack := butlast (redoStack s1)\<rparr>
        in if nextState \<noteq> EmptyText then loadScene nextState s2 else s2)"

text \<open>
  The object a CREATE command builds. \<open>i\<close> is the identifier chosen for it and
  \<open>uniqueName\<close> the name.
\<close>

definition created_object :: "string \<Rightarrow> string \<Rightarrow> PartialCADObject \<Rightarrow> real CADObject" where
  "created_object i uniqueName d =
     \<lparr>id = i,
      name = uniqueName,
      type = (case p_type d of Some t \<Rightarrow> t | None \<Rightarrow> BOX),
      position = (case p_position d of Some p \<Rightarrow> p | None \<Rightarrow> (0, 0, 0)),
      rotation = (case p_rotation d of Some r \<Rightarrow> r | None \<Rightarrow> (0, 0, 0)),
      scale = (case p_scale d of Some k \<Rightarrow> k | None \<Rightarrow> (1, 1, 1)),
      color = (if truthy_str (p_color d) then the (p_color d) else ''#3b82f6''),
      args = Some (case p_args d of Some a \<Rightarrow> a | None \<Rightarrow> []),
      selected = Some False,
      visible = Some (p_visible d \<noteq> Some False),
      geometryData = None\<rparr>"

text \<open>
  \<open>{...existing, ...cleanUpdates}\<close>: every field present in the update replaces the
  existing one; \<open>n\<close> is the name after the uniqueness step.
\<close>

definition merge_updates ::
  "real CADObject \<Rightarrow> PartialCADObject \<Rightarrow> string option \<Rightarrow> real CADObject" where
  "merge_updates existing d n =
     \<lparr>id = (case p_id d of Some v \<Rightarrow> v | None \<Rightarrow> id existing),
      name = (case n of Some v \<Rightarrow> v | None \<Rightarrow> name existing),
      type = (case p_type d of Some v \<Rightarrow> v | None \<Rightarrow> type existing),
      position = (case p_position d of Some v \<Rightarrow> v | None \<Rightarrow> position existing),
      rotation = (case p_rotation d of Some v \<Rightarrow> v | None \<Rightarrow> rotation existing),
      scale = (case p_scale d of Some v \<Rightarrow> v | None \<Rightarrow> scale existing),
      color = (case p_color d of Some v \<Rightarrow> v | None \<Rightarrow> color existing),
      args = (case p_args d of Some v \<Rightarrow> Some v | None \<Rightarrow> args existing),
      selected = (case p_selected d of Some v \<Rightarrow> Some v | None \<Rightarrow> selected existing),
      visible = (case p_visible d of Some v \<Rightarrow> Some v | None \<Rightarrow> visible existing),
      geometryData =
        (case p_geometryData d of Some v \<Rightarrow> Some v | None \<Rightarrow> geometryData existing)\<rparr>"

text \<open>
  The body of the \<open>forEach\<close> of \<open>processCommands\<close>, for one command. \<open>fresh\<close> is
  the identifier that \<open>Date.now()\<close> and \<open>Math.random()\<close> would give this command.
\<close>

definition command_targetId :: "AICommand \<Rightarrow> string option" where
  "command_targetId cmd =
     or_str (targetId cmd) (case objectData cmd of None \<Rightarrow> None | Some d \<Rightarrow> p_id d)"

definition processCommand :: "string \<Rightarrow> AICommand \<Rightarrow> SceneManager \<Rightarrow> SceneManager" where
  "processCommand fresh cmd s =
     (let tid = command_targetId cmd in
      case action cmd of
        CREATE \<Rightarrow>
          (case objectData cmd of
             None \<Rightarrow> s
           | Some d \<Rightarrow>
               let i = (if truthy_str (p_id d) then the (p_id d)
                        else if truthy_str tid then the tid else fresh);
                   rawName = (if truthy_str (p_name d) then the (p_name d) else ''Object'');
                   uniqueName = getUniqueName s rawName None;
                   newObj = created_object i uniqueName d
               in s\<lparr>objects := map_set (id newObj) newObj (objects s)\<rparr>)
      | UPDATE \<Rightarrow>
          (if truthy_str tid \<and> map_has (objects s) (the tid) then
             (case map_get (objects s) (the tid) of
                None \<Rightarrow> s
              | Some existing \<Rightarrow>
                  let d = (case objectData cmd of
                             Some d \<Rightarrow> d
                           | None \<Rightarrow> \<lparr>p_id = None, p_name = None, p_type = None,
                                       p_position = None, p_rotation = None, p_scale = None,
                                       p_color = None, p_args = None, p_selected = None,
                                       p_visible = None, p_geometryData = None\<rparr>);
                      n = (if truthy_str (p_name d)
                           then Some (getUniqueName s (the (p_name d)) tid)
                           else p_name d)
                  in s\<lparr>objects := map_set (the tid) (merge_updates existing d n) (objects s)\<rparr>)
           else s)
      | DELETE \<Rightarrow> (if truthy_str tid then s\<lparr>objects := map_delete (the tid) (objects s)\<rparr> else s)
      | CLEAR \<Rightarrow> s\<lparr>objects := []\<rparr>
      | UNDO \<Rightarrow> undo s
      | REDO \<Rightarrow> redo s
      | FOCUS \<Rightarrow> s)"

definition modifiesScene :: "AICommand list \<Rightarrow> bool" where
  "modifiesScene commands = list_ex (\<lambda>c. action c \<in> {CREATE, UPDATE, DELETE, CLEAR}) commands"

text \<open>
  \<open>processCommands\<close>. \<open>gen k\<close> is the fresh identifier available to the command at
  index \<open>k\<close> of the batch.
\<close>

definition processCommands :: "(nat \<Rightarrow> string) \<Rightarrow> AICommand list \<Rightarrow> SceneManager \<Rightarrow> SceneManager" where
  "processCommands gen commands s =
     foldl (\<lambda>st (k, cmd). processCommand (gen k) cmd st)
       (if modifiesScene commands then saveState s else s)
       (enumerate 0 commands)"

section \<open>CADContext (backend/engine/CSGEngine.ts)\<close>

text \<open>
  A colour of the mesh library is given by how it was set: the numeric value it was
  constructed with, or the string passed to \<open>set\<close> on top of the colour there was
  before (the library keeps the old colour when it cannot read the string).
\<close>

datatype ThreeColor = ColorHex nat | ColorSet string ThreeColor

text \<open>
  A brush: its geometry, the colour of its material (roughness and metalness never
  change), \<open>userData.type\<close>, the local transform, and the world matrix as
  \<open>updateMatrixWorld\<close> last computed it from the transform.
\<close>

record Brush =
  geometry :: "JSNumber Geometry"
  material :: ThreeColor
  userData_type :: "ShapeType option"
  b_position :: "JSNumber Vector3"
  b_rotation :: "JSNumber Vector3"
  b_scale :: "JSNumber Vector3"
  matrixWorld :: "JSNumber Vector3 \<times> JSNumber Vector3 \<times> JSNumber Vector3"

text \<open>
  The values a script handles. Brushes are mutable objects, so a value refers to a
  brush by its address in the heap. The other truthy values are not brushes: the
  builtin functions themselves, the context object, a boolean, and a value of the
  host's global scope (named by its global binding).
\<close>

datatype JSValue =
    Undefined
  | Null
  | Bool bool
  | BrushRef nat
  | BuiltinFn string
  | CtxObject
  | ArgumentsObject
  | HostValue string

definition truthy :: "JSValue \<Rightarrow> bool" where
  "truthy v = (case v of Undefined \<Rightarrow> False | Null \<Rightarrow> False | Bool b \<Rightarrow> b | _ \<Rightarrow> True)"

text \<open>\<open>a || b\<close>\<close>

definition or_value :: "JSValue \<Rightarrow> JSValue \<Rightarrow> JSValue" where
  "or_value a b = (if truthy a then a else b)"

datatype Fault = ReferenceError | TypeError

text \<open>
  What lies outside the repository: \<open>getHexString\<close> of the mesh library, the clock
  (\<open>Date_now k\<close> is what \<open>Date.now()\<close> returns when \<open>k\<close> objects have been added),
  and the names bound in the host's global scope.
\<close>

record Runtime =
  getHexString :: "ThreeColor \<Rightarrow> string"
  Date_now :: "nat \<Rightarrow> nat"
  global_scope :: "string \<Rightarrow> bool"

text \<open>
  The state of one execution: the heap of brushes and the \<open>objects\<close> array of the
  context. The context's material and evaluator are never modified.
\<close>

record ExecState =
  heap :: "Brush list"
  ctx_objects :: "JSNumber CADObject list"

definition new_CADContext :: ExecState where
  "new_CADContext = \<lparr>heap = [], ctx_objects = []\<rparr>"

definition context_material :: ThreeColor where
  "context_material = ColorHex 0xcccccc"

definition identity_transform :: "JSNumber Vector3 \<times> JSNumber Vector3 \<times> JSNumber Vector3" where
  "identity_transform =
     ((Finite 0, Finite 0, Finite 0), (Finite 0, Finite 0, Finite 0),
      (Finite 1, Finite 1, Finite 1))"

definition new_Brush :: "JSNumber Geometry \<Rightarrow> ThreeColor \<Rightarrow> Brush" where
  "new_Brush geo mat =
     \<lparr>geometry = geo, material = mat, userData_type = None,
      b_position = (Finite 0, Finite 0, Finite 0),
      b_rotation = (Finite 0, Finite 0, Finite 0),
      b_scale = (Finite 1, Finite 1, Finite 1),
      matrixWorld = identity_transform\<rparr>"

definition updateMatrixWorld :: "Brush \<Rightarrow> Brush" where
  "updateMatrixWorld b = b\<lparr>matrixWorld := (b_position b, b_rotation b, b_scale b)\<rparr>"

definition alloc :: "Brush \<Rightarrow> ExecState \<Rightarrow> JSValue \<times> ExecState" where
  "alloc b st = (BrushRef (length (heap st)), st\<lparr>heap := heap st @ [b]\<rparr>)"

definition get_brush :: "ExecState \<Rightarrow> nat \<Rightarrow> Brush option" where
  "get_brush st r = (if r < length (heap st) then Some (heap st ! r) else None)"

definition put_brush :: "nat \<Rightarrow> Brush \<Rightarrow> ExecState \<Rightarrow> ExecState" where
  "put_brush r b st = st\<lparr>heap := (heap st)[r := b]\<rparr>"

subsection \<open>Primitives\<close>

definition Box :: "JSNumber \<Rightarrow> JSNumber \<Rightarrow> JSNumber \<Rightarrow> ExecState \<Rightarrow> JSValue \<times> ExecState" where
  "Box width height depth st =
     (let geo = BoxGeometry width height depth;
          brush = new_Brush geo context_material;
          brush = brush\<lparr>userData_type := Some BOX\<rparr>;
          brush = updateMatrixWorld brush
      in alloc brush st)"

definition Sphere :: "JSNumber \<Rightarrow> ExecState \<Rightarrow> JSValue \<times> ExecState" where
  "Sphere radius st =
     (let geo = SphereGeometry radius 32 32;
          brush = new_Brush geo context_material;
          brush = brush\<lparr>userData_type := Some SPHERE\<rparr>;
          brush = updateMatrixWorld brush
      in alloc brush st)"

definition Cylinder :: "JSNumber \<Rightarrow> JSNumber \<Rightarrow> JSNumber \<Rightarrow> ExecState \<Rightarrow> JSValue \<times> ExecState" where
  "Cylinder radiusTop radiusBottom height st =
     (let geo = CylinderGeometry radiusTop radiusBottom height 32;
          brush = new_Brush geo context_material;
          brush = brush\<lparr>userData_type := Some CYLINDER\<rparr>;
          brush = updateMatrixWorld brush
      in alloc brush st)"

subsection \<open>Transformations\<close>

text \<open>
  A falsy \<open>mesh\<close> is returned as it is. A truthy value that is not a brush has no
  \<open>position\<close>, so the call on it is a TypeError.
\<close>

definition Move ::
  "JSValue \<Rightarrow> JSNumber \<Rightarrow> JSNumber \<Rightarrow> JSNumber \<Rightarrow> ExecState \<Rightarrow> Fault + JSValue \<times> ExecState" where
  "Move mesh x y z st =
     (if \<not> truthy mesh then Inr (mesh, st)
      else case mesh of
        BrushRef r \<Rightarrow>
          (case get_brush st r of
             None \<Rightarrow> Inl TypeError
           | Some b \<Rightarrow> Inr (mesh, put_brush r (updateMatrixWorld (b\<lparr>b_position := (x, y, z)\<rparr>)) st))
      | _ \<Rightarrow> Inl TypeError)"

definition Rotate ::
  "JSValue \<Rightarrow> JSNumber \<Rightarrow> JSNumber \<Rightarrow> JSNumber \<Rightarrow> ExecState \<Rightarrow> Fault + JSValue \<times> ExecState" where
  "Rotate mesh x y z st =
     (if \<not> truthy mesh then Inr (mesh, st)
      else case mesh of
        BrushRef r \<Rightarrow>
          (case get_brush st r of
             None \<Rightarrow> Inl TypeError
           | Some b \<Rightarrow> Inr (mesh, put_brush r (updateMatrixWorld (b\<lparr>b_rotation := (x, y, z)\<rparr>)) st))
      | _ \<Rightarrow> Inl TypeError)"

definition Scale ::
  "JSValue \<Rightarrow> JSNumber \<Rightarrow> JSNumber \<Rightarrow> JSNumber \<Rightarrow> ExecState \<Rightarrow> Fault + JSValue \<times> ExecState" where
  "Scale mesh x y z st =
     (if \<not> truthy mesh then Inr (mesh, st)
      else case mesh of
        BrushRef r \<Rightarrow>
          (case get_brush st r of
             None \<Rightarrow> Inl TypeError
           | Some b \<Rightarrow> Inr (mesh, put_brush r (updateMatrixWorld (b\<lparr>b_scale := (x, y, z)\<rparr>)) st))
      | _ \<Rightarrow> Inl TypeError)"

text \<open>
  The material of a brush made by the builtins is never an array, so \<open>Color\<close> takes
  its second branch: clone the material, set the colour on the clone, install the clone.
\<close>

definition Color :: "JSValue \<Rightarrow> string \<Rightarrow> ExecState \<Rightarrow> Fault + JSValue \<times> ExecState" where
  "Color mesh hex st =
     (if \<not> truthy mesh then Inr (mesh, st)
      else case mesh of
        BrushRef r \<Rightarrow>
          (case get_brush st r of
             None \<Rightarrow> Inl TypeError
           | Some b \<Rightarrow>
               let newMat = ColorSet hex (material b)
               in Inr (mesh, put_brush r (b\<lparr>material := newMat\<rparr>) st))
      | _ \<Rightarrow> Inl TypeError)"

subsection \<open>CSG operations\<close>

text \<open>
  \<open>this.evaluator.evaluate(a, b, op)\<close> returns a new brush whose geometry is the
  result, already in world space; whatever material the evaluator gives it is replaced
  by the material of \<open>a\<close> right after. The three operations of the source differ
  in the operation alone; \<open>csg\<close> is their common body.
\<close>

definition evaluate :: "Brush \<Rightarrow> Brush \<Rightarrow> CSGOperation \<Rightarrow> Brush" where
  "evaluate a b operation =
     new_Brush (Evaluated operation (geometry a) (matrixWorld a) (geometry b) (matrixWorld b))
       (material a)"

definition csg :: "CSGOperation \<Rightarrow> JSValue \<Rightarrow> JSValue \<Rightarrow> ExecState \<Rightarrow> Fault + JSValue \<times> ExecState" where
  "csg operation a b st =
     (if \<not> truthy a \<or> \<not> truthy b then Inr (or_value a b, st)
      else case a of
        BrushRef ra \<Rightarrow>
          (case get_brush st ra of
             None \<Rightarrow> Inl TypeError
           | Some ba \<Rightarrow>
               let st1 = put_brush ra (updateMatrixWorld ba) st in
               (case b of
                  BrushRef rb \<Rightarrow>
                    (case get_brush st1 rb of
                       None \<Rightarrow> Inl TypeError
                     | Some bb \<Rightarrow>
                         let st2 = put_brush rb (updateMatrixWorld bb) st1 in
                         (case get_brush st2 ra of
                            None \<Rightarrow> Inl TypeError
                          | Some a' \<Rightarrow>
                              (case get_brush st2 rb of
                                 None \<Rightarrow> Inl TypeError
                               | Some b' \<Rightarrow>
                                   let result = evaluate a' b' operation;
                                       result = result\<lparr>userData_type := Some MESH\<rparr>;
                                       result = result\<lparr>material := material a'\<rparr>
                                   in Inr (alloc result st2))))
                | _ \<Rightarrow> Inl TypeError))
      | _ \<Rightarrow> Inl TypeError)"

definition Union_csg :: "JSValue \<Rightarrow> JSValue \<Rightarrow> ExecState \<Rightarrow> Fault + JSValue \<times> ExecState" where
  "Union_csg a b st = csg ADDITION a b st"

definition Subtract :: "JSValue \<Rightarrow> JSValue \<Rightarrow> ExecState \<Rightarrow> Fault + JSValue \<times> ExecState" where
  "Subtract a b st = csg SUBTRACTION a b st"

definition Intersect :: "JSValue \<Rightarrow> JSValue \<Rightarrow> ExecState \<Rightarrow> Fault + JSValue \<times> ExecState" where
  "Intersect a b st = csg INTERSECTION a b st"

subsection \<open>Final output\<close>

definition object_id :: "nat \<Rightarrow> nat \<Rightarrow> string" where
  "object_id k now = ''obj_'' @ string_of_nat k @ ''_'' @ string_of_nat now"

definition Add :: "Runtime \<Rightarrow> JSValue \<Rightarrow> string \<Rightarrow> ExecState \<Rightarrow> Fault + JSValue \<times> ExecState" where
  "Add rt mesh nm st =
     (if \<not> truthy mesh then Inr (Undefined, st)
      else case mesh of
        BrushRef r \<Rightarrow>
          (case get_brush st r of
             None \<Rightarrow> Inl TypeError
           | Some m \<Rightarrow>
               let finalGeom = geometry m;
                   c = ''#'' @ getHexString rt (material m);
                   k = length (ctx_objects st);
                   obj = \<lparr>id = object_id k (Date_now rt k),
                          name = nm,
                          type = MESH,
                          position = b_position m,
                          rotation = b_rotation m,
                          scale = b_scale m,
                          color = c,
                          args = None,
                          selected = Some False,
                          visible = Some True,
                          geometryData = Some finalGeom\<rparr>
               in Inr (Undefined, st\<lparr>ctx_objects := ctx_objects st @ [obj]\<rparr>))
      | _ \<Rightarrow> Inl TypeError)"

definition getResults :: "ExecState \<Rightarrow> JSNumber CADObject list" where
  "getResults st = ctx_objects st"

section \<open>CSGEngine.execute\<close>

text \<open>
  \<open>execute\<close> runs arbitrary JavaScript. The model runs the scripts of this
  fragment: constant declarations, expression statements and \<open>while\<close> loops over
  expression statements, where an expression is a literal, an identifier, or a call of
  one of the eleven builtins with numbers and string literals as its plain arguments.
  An omitted or \<open>undefined\<close> numeric argument is \<open>None\<close>.

  \<open>Ref k\<close> is a use of the constant that the \<open>k\<close>-th \<open>const\<close> statement of
  the script declares; the script's own constants are named apart from every other name.
  \<open>Ident x\<close> is a use of any other identifier \<open>x\<close>.
\<close>

datatype Expr =
    Ref nat
  | Ident string
  | NullLit
  | UndefinedLit
  | BoolLit bool
  | CallBox "JSNumber option" "JSNumber option" "JSNumber option"
  | CallSphere "JSNumber option"
  | CallCylinder "JSNumber option" "JSNumber option" "JSNumber option"
  | CallMove Expr JSNumber JSNumber JSNumber
  | CallRotate Expr JSNumber JSNumber JSNumber
  | CallScale Expr JSNumber JSNumber JSNumber
  | CallColor Expr string
  | CallUnion Expr Expr
  | CallSubtract Expr Expr
  | CallIntersect Expr Expr
  | CallAdd Expr string

datatype Stmt = Const Expr | ExprStmt Expr | While Expr "Expr list"

text \<open>
  A script text is represented by what the \<open>Function\<close> constructor makes of the
  function body built around it: a text that does not parse, or a program.
\<close>

datatype Script = Unparsable | Program "Stmt list"

text \<open>
  The names the function body destructures from \<open>ctx\<close>, in the order of the source.
\<close>

definition builtin_names :: "string list" where
  "builtin_names =
     [''Box'', ''Sphere'', ''Cylinder'', ''Move'', ''Rotate'', ''Scale'', ''Color'',
      ''Union'', ''Subtract'', ''Intersect'', ''Add'']"

text \<open>
  What an identifier of the script refers to. The script is the body of a function
  made by \<open>new Function('ctx', functionBody)\<close>: around it are the \<open>const\<close>
  destructuring of the builtins, the function's own scope with the parameter \<open>ctx\<close>
  and the implicit \<open>arguments\<close>, and then the global scope of the host. \<open>None\<close> is
  an identifier that is bound nowhere.
\<close>

definition resolve :: "Runtime \<Rightarrow> string \<Rightarrow> JSValue option" where
  "resolve rt x =
     (if x \<in> set builtin_names then Some (BuiltinFn x)
      else if x = ''ctx'' then Some CtxObject
      else if x = ''arguments'' then Some ArgumentsObject
      else if global_scope rt x then Some (HostValue x)
      else None)"

definition default_arg :: "JSNumber option \<Rightarrow> JSNumber \<Rightarrow> JSNumber" where
  "default_arg a d = (case a of None \<Rightarrow> d | Some v \<Rightarrow> v)"

text \<open>
  Evaluation of an expression: the arguments from left to right, then the call.
  \<open>env\<close> holds the values of the constants declared so far; a constant used before
  its declaration has run is a ReferenceError.
\<close>

fun eval :: "Runtime \<Rightarrow> JSValue list \<Rightarrow> Expr \<Rightarrow> ExecState \<Rightarrow> Fault + JSValue \<times> ExecState" where
  "eval rt env (Ref k) st =
     (if k < length env then Inr (env ! k, st) else Inl ReferenceError)"
| "eval rt env (Ident x) st =
     (case resolve rt x of None \<Rightarrow> Inl ReferenceError | Some v \<Rightarrow> Inr (v, st))"
| "eval rt env NullLit st = Inr (Null, st)"
| "eval rt env UndefinedLit st = Inr (Undefined, st)"
| "eval rt env (BoolLit b) st = Inr (Bool b, st)"
| "eval rt env (CallBox w h d) st =
     Inr (Box (default_arg w (Finite 1)) (default_arg h (Finite 1)) (default_arg d (Finite 1)) st)"
| "eval rt env (CallSphere r) st = Inr (Sphere (default_arg r (Finite 0.5)) st)"
| "eval rt env (CallCylinder rtop rbottom h) st =
     Inr (Cylinder (default_arg rtop (Finite 0.5)) (default_arg rbottom (Finite 0.5))
            (default_arg h (Finite 1)) st)"
| "eval rt env (CallMove e x y z) st =
     (case eval rt env e st of Inl f \<Rightarrow> Inl f | Inr (v, st1) \<Rightarrow> Move v x y z st1)"
| "eval rt env (CallRotate e x y z) st =
     (case eval rt env e st of Inl f \<Rightarrow> Inl f | Inr (v, st1) \<Rightarrow> Rotate v x y z st1)"
| "eval rt env (CallScale e x y z) st =
     (case eval rt env e st of Inl f \<Rightarrow> Inl f | Inr (v, st1) \<Rightarrow> Scale v x y z st1)"
| "eval rt env (CallColor e hex) st =
     (case eval rt env e st of Inl f \<Rightarrow> Inl f | Inr (v, st1) \<Rightarrow> Color v hex st1)"
| "eval rt env (CallUnion e1 e2) st =
     (case eval rt env e1 st of
        Inl f \<Rightarrow> Inl f
      | Inr (a, st1) \<Rightarrow>
          (case eval rt env e2 st1 of Inl f \<Rightarrow> Inl f | Inr (b, st2) \<Rightarrow> Union_csg a b st2))"
| "eval rt env (CallSubtract e1 e2) st =
     (case eval rt env e1 st of
        Inl f \<Rightarrow> Inl f
      | Inr (a, st1) \<Rightarrow>
          (case eval rt env e2 st1 of Inl f \<Rightarrow> Inl f | Inr (b, st2) \<Rightarrow> Subtract a b st2))"
| "eval rt env (CallIntersect e1 e2) st =
     (case eval rt env e1 st of
        Inl f \<Rightarrow> Inl f
      | Inr (a, st1) \<Rightarrow>
          (case eval rt env e2 st1 of Inl f \<Rightarrow> Inl f | Inr (b, st2) \<Rightarrow> Intersect a b st2))"
| "eval rt env (CallAdd e nm) st =
     (case eval rt env e st of Inl f \<Rightarrow> Inl f | Inr (v, st1) \<Rightarrow> Add rt v nm st1)"

text \<open>
  Running the statements. A \<open>while\<close> loop may run forever, so the run is given a
  number of steps: \<open>None\<close> says that the run has not ended within them. The code ends
  with a result exactly when some number of steps gives \<open>Some\<close> of it; the code itself
  counts nothing.
\<close>

fun exec :: "Runtime \<Rightarrow> nat \<Rightarrow> Stmt list \<Rightarrow> JSValue list \<Rightarrow> ExecState \<Rightarrow> (Fault + ExecState) option" where
  "exec rt 0 stmts env st = None"
| "exec rt (Suc n) [] env st = Some (Inr st)"
| "exec rt (Suc n) (Const e # rest) env st =
     (case eval rt env e st of
        Inl f \<Rightarrow> Some (Inl f)
      | Inr (v, st1) \<Rightarrow> exec rt n rest (env @ [v]) st1)"
| "exec rt (Suc n) (ExprStmt e # rest) env st =
     (case eval rt env e st of
        Inl f \<Rightarrow> Some (Inl f)
      | Inr (v, st1) \<Rightarrow> exec rt n rest env st1)"
| "exec rt (Suc n) (While c body # rest) env st =
     (case eval rt env c st of
        Inl f \<Rightarrow> Some (Inl f)
      | Inr (v, st1) \<Rightarrow>
          if truthy v then exec rt n (map ExprStmt body @ While c body # rest) env st1
          else exec rt n rest env st1)"

text \<open>
  \<open>execute(code)\<close>: a text that does not parse makes \<open>new Function\<close> throw a
  SyntaxError, which the outer \<open>catch\<close> logs and throws again; a fault of the script is
  caught inside the function body and thrown again wrapped in a new \<open>Error\<close>;
  otherwise the objects of the context are returned.
\<close>

datatype JSError = SyntaxError | WrappedError Fault

definition execute ::
  "Runtime \<Rightarrow> nat \<Rightarrow> Script \<Rightarrow> (JSError + JSNumber CADObject list) option" where
  "execute rt steps code =
     (case code of
        Unparsable \<Rightarrow> Some (Inl SyntaxError)
      | Program stmts \<Rightarrow>
          (case exec rt steps stmts [] new_CADContext of
             None \<Rightarrow> None
           | Some (Inl f) \<Rightarrow> Some (Inl (WrappedError f))
           | Some (Inr context) \<Rightarrow> Some (Inr (getResults context))))"

subsection \<open>Scripts in general\<close>

text \<open>
  The fragment above gives a script by its syntax. A script may be any JavaScript, with
  variables, arithmetic, branches, loops and functions of its own, so for the properties
  that speak of every script a script is given by what it does. The language is
  deterministic: what a script does next is determined by its text and by what it has
  observed so far. It observes what its calls of the builtins return or throw, and what
  it reads from elsewhere: through the globals of the host (\<open>Math.random()\<close>,
  \<open>Date.now()\<close>), through \<open>ctx\<close> and through \<open>arguments\<close>. It acts
  on the context by calling the builtins, and it can also change the brushes it holds and
  the objects of \<open>ctx\<close> directly (\<open>private\<close> is checked by the compiler of the
  engine alone). The material, the evaluator and the methods of the context are taken as
  the constructor made them, as in the state above.
\<close>

text \<open>A datum that a script reads from outside the builtins.\<close>

datatype HostData = HostNumber JSNumber | HostString string | HostBool bool | HostUndefined

text \<open>
  A call of one of the eleven builtins, with its arguments evaluated. An omitted or
  \<open>undefined\<close> dimension of a primitive is \<open>None\<close>.
\<close>

datatype Call =
    Call_Box "JSNumber option" "JSNumber option" "JSNumber option"
  | Call_Sphere "JSNumber option"
  | Call_Cylinder "JSNumber option" "JSNumber option" "JSNumber option"
  | Call_Move JSValue JSNumber JSNumber JSNumber
  | Call_Rotate JSValue JSNumber JSNumber JSNumber
  | Call_Scale JSValue JSNumber JSNumber JSNumber
  | Call_Color JSValue string
  | Call_Union JSValue JSValue
  | Call_Subtract JSValue JSValue
  | Call_Intersect JSValue JSValue
  | Call_Add JSValue string

text \<open>The call itself: the functions of \<open>CADContext\<close>, with the defaults of the primitives.\<close>

fun call :: "Runtime \<Rightarrow> Call \<Rightarrow> ExecState \<Rightarrow> Fault + JSValue \<times> ExecState" where
  "call rt (Call_Box w h d) st =
     Inr (Box (default_arg w (Finite 1)) (default_arg h (Finite 1)) (default_arg d (Finite 1)) st)"
| "call rt (Call_Sphere r) st = Inr (Sphere (default_arg r (Finite 0.5)) st)"
| "call rt (Call_Cylinder rtop rbottom h) st =
     Inr (Cylinder (default_arg rtop (Finite 0.5)) (default_arg rbottom (Finite 0.5))
            (default_arg h (Finite 1)) st)"
| "call rt (Call_Move v x y z) st = Move v x y z st"
| "call rt (Call_Rotate v x y z) st = Rotate v x y z st"
| "call rt (Call_Scale v x y z) st = Scale v x y z st"
| "call rt (Call_Color v hex) st = Color v hex st"
| "call rt (Call_Union a b) st = Union_csg a b st"
| "call rt (Call_Subtract a b) st = Subtract a b st"
| "call rt (Call_Intersect a b) st = Intersect a b st"
| "call rt (Call_Add v nm) st = Add rt v nm st"

text \<open>
  A script can catch what a builtin throws and go on, in the state the builtin had
  reached. \<open>Union\<close>, \<open>Subtract\<close> and \<open>Intersect\<close> have run
  \<open>a.updateMatrixWorld()\<close> when \<open>b\<close> turns out to be no brush; every other
  builtin throws before it changes anything.
\<close>

definition csg_fault :: "JSValue \<Rightarrow> ExecState \<Rightarrow> ExecState" where
  "csg_fault a st =
     (case a of
        BrushRef ra \<Rightarrow>
          (case get_brush st ra of
             None \<Rightarrow> st
           | Some ba \<Rightarrow> put_brush ra (updateMatrixWorld ba) st)
      | _ \<Rightarrow> st)"

fun after_fault :: "Call \<Rightarrow> ExecState \<Rightarrow> ExecState" where
  "after_fault (Call_Union a b) st = csg_fault a st"
| "after_fault (Call_Subtract a b) st = csg_fault a st"
| "after_fault (Call_Intersect a b) st = csg_fault a st"
| "after_fault c st = st"

text \<open>
  What a script throws: a fault of the engine or of the language that it does not catch,
  or a value of its own, given by its message.
\<close>

datatype Thrown = Fault_thrown Fault | Value_thrown string

text \<open>
  What a script observes: the value a call of a builtin returned, the fault that a call
  or the use of an unbound name threw, a datum read from outside the builtins, or that
  a direct change has been made.
\<close>

datatype Observation = Returned JSValue | Threw Fault | Answered HostData | Altered

text \<open>
  What a script does next: it calls a builtin, it reads through a name that is not of
  its own making, it changes the brushes or the objects of the context directly, it
  ends, it throws, or it computes forever without doing any of these
  (\<open>while (true) {}\<close>).
\<close>

datatype Step =
    Invoke Call
  | Consult string
  | Alter "ExecState \<Rightarrow> ExecState"
  | Finish
  | Throw Thrown
  | Hang

text \<open>
  Reading through the name \<open>x\<close>, as the \<open>k\<close>-th observation of the run. A name
  that is bound nowhere is a ReferenceError. What is read through a bound name lies
  outside the repository; \<open>host k x\<close> is what this run reads.
\<close>

definition consult :: "Runtime \<Rightarrow> (nat \<Rightarrow> string \<Rightarrow> HostData) \<Rightarrow> nat \<Rightarrow> string \<Rightarrow> Observation" where
  "consult rt host k x =
     (case resolve rt x of None \<Rightarrow> Threw ReferenceError | Some v \<Rightarrow> Answered (host k x))"

text \<open>
  \<open>func(context)\<close>: the script, given by the step it takes after each list of
  observations, runs on the context. As for \<open>exec\<close>, the run is given a number of
  steps, and \<open>None\<close> says that it has not ended within them.
\<close>

fun func ::
  "Runtime \<Rightarrow> (nat \<Rightarrow> string \<Rightarrow> HostData) \<Rightarrow> nat \<Rightarrow> (Observation list \<Rightarrow> Step) \<Rightarrow>
   Observation list \<Rightarrow> ExecState \<Rightarrow> (Thrown + ExecState) option" where
  "func rt host 0 script seen st = None"
| "func rt host (Suc n) script seen st =
     (case script seen of
        Finish \<Rightarrow> Some (Inr st)
      | Throw e \<Rightarrow> Some (Inl e)
      | Hang \<Rightarrow> None
      | Consult x \<Rightarrow> func rt host n script (seen @ [consult rt host (length seen) x]) st
      | Alter f \<Rightarrow> func rt host n script (seen @ [Altered]) (f st)
      | Invoke c \<Rightarrow>
          (case call rt c st of
             Inl f \<Rightarrow> func rt host n script (seen @ [Threw f]) (after_fault c st)
           | Inr (v, st1) \<Rightarrow> func rt host n script (seen @ [Returned v]) st1))"

text \<open>
  A script text in general: a text that does not parse, or the behaviour of the text
  that does.
\<close>

datatype Code = No_parse | Behaviour "Observation list \<Rightarrow> Step"

text \<open>
  \<open>execute(code)\<close> on a script text in general. Whatever the script throws is caught
  inside the function body and thrown again wrapped in a new \<open>Error\<close>.
\<close>

datatype CodeError = CodeSyntaxError | CodeWrappedError Thrown

definition execute_code ::
  "Runtime \<Rightarrow> (nat \<Rightarrow> string \<Rightarrow> HostData) \<Rightarrow> nat \<Rightarrow> Code \<Rightarrow>
   (CodeError + JSNumber CADObject list) option" where
  "execute_code rt host steps code =
     (case code of
        No_parse \<Rightarrow> Some (Inl CodeSyntaxError)
      | Behaviour script \<Rightarrow>
          (case func rt host steps script [] new_CADContext of
             None \<Rightarrow> None
           | Some (Inl e) \<Rightarrow> Some (Inl (CodeWrappedError e))
           | Some (Inr context) \<Rightarrow> Some (Inr (getResults context))))"

text \<open>
  A runtime for the examples: \<open>getHexString\<close> reads a colour set from a string
  \<open>#rrggbb\<close>, the clock starts at a fixed time, and the host binds three global names.
\<close>

definition example_runtime :: Runtime where
  "example_runtime =
     \<lparr>getHexString = (\<lambda>c. case c of ColorHex n \<Rightarrow> ''cccccc'' | ColorSet s old \<Rightarrow> tl s),
      Date_now = (\<lambda>k. 1700000000000 + k),
      global_scope = (\<lambda>x. x \<in> set [''Date'', ''Math'', ''fetch''])\<rparr>"

section \<open>Notions used in the properties of the engine\<close>

text \<open>A null or absent operand.\<close>

definition absent :: "JSValue \<Rightarrow> bool" where
  "absent v = (v = Null \<or> v = Undefined)"

text \<open>The statements that can repeat.\<close>

fun is_While :: "Stmt \<Rightarrow> bool" where
  "is_While (While c body) = True"
| "is_While (Const e) = False"
| "is_While (ExprStmt e) = False"

text \<open>
  The script that makes two boxes and adds each under the name \<open>Cube\<close>:
  \<open>Add(Box(...), "Cube"); Add(Box(...), "Cube");\<close>
\<close>

definition two_cubes :: "Expr \<Rightarrow> Expr \<Rightarrow> Script" where
  "two_cubes box1 box2 =
     Program [ExprStmt (CallAdd box1 ''Cube''), ExprStmt (CallAdd box2 ''Cube'')]"

text \<open>A CREATE command for an object named \<open>Cube\<close> with a given identifier.\<close>

definition create_cube :: "string \<Rightarrow> AICommand" where
  "create_cube i = \<lparr>action = CREATE, targetId = None, reasoning = None,
     objectData = Some \<lparr>p_id = Some i, p_name = Some ''Cube'', p_type = None,
        p_position = None, p_rotation = None, p_scale = None, p_color = None, p_args = None,
        p_selected = None, p_visible = None, p_geometryData = None\<rparr>\<rparr>"

text \<open>
  Two runs of a script are compared up to the identifiers of the objects: the heaps
  are equal and the objects are equal once their identifiers are erased.
\<close>

definition erase_id :: "'n CADObject \<Rightarrow> 'n CADObject" where
  "erase_id obj = obj\<lparr>id := []\<rparr>"

definition same_run :: "ExecState \<Rightarrow> ExecState \<Rightarrow> bool" where
  "same_run st st' =
     (heap st = heap st' \<and> map erase_id (ctx_objects st) = map erase_id (ctx_objects st'))"

definition same_result ::
  "Fault + JSValue \<times> ExecState \<Rightarrow> Fault + JSValue \<times> ExecState \<Rightarrow> bool" where
  "same_result r r' =
     (case r of
        Inl f \<Rightarrow> r' = Inl f
      | Inr (v, st) \<Rightarrow> (case r' of Inl f' \<Rightarrow> False | Inr (v', st') \<Rightarrow> v = v' \<and> same_run st st'))"

definition same_end :: "(Fault + ExecState) option \<Rightarrow> (Fault + ExecState) option \<Rightarrow> bool" where
  "same_end r r' =
     (case r of
        None \<Rightarrow> r' = None
      | Some (Inl f) \<Rightarrow> r' = Some (Inl f)
      | Some (Inr st) \<Rightarrow> (case r' of Some (Inr st') \<Rightarrow> same_run st st' | _ \<Rightarrow> False))"

text \<open>
  The identifiers of a result list are those \<open>Add\<close> builds from the index of the
  object and the clock.
\<close>

definition ids_from_clock :: "Runtime \<Rightarrow> JSNumber CADObject list \<Rightarrow> bool" where
  "ids_from_clock rt objs =
     (map id objs = map (\<lambda>k. object_id k (Date_now rt k)) [0..<length objs])"

text \<open>
  The script with which \<open>App.tsx\<close> starts, and a runtime whose clock reads a later
  time.
\<close>

definition starter_cube :: Script where
  "starter_cube =
     Program [Const (CallBox (Some (Finite 1)) (Some (Finite 1)) (Some (Finite 1))),
              ExprStmt (CallColor (Ref 0) ''#3b82f6''),
              ExprStmt (CallAdd (Ref 0) ''Starter Cube'')]"

definition later_runtime :: Runtime where
  "later_runtime = example_runtime\<lparr>Date_now := (\<lambda>k. 1700000000123)\<rparr>"

text \<open>
  What two runs are compared in: the kind, the transform and the colour of each object
  of the result list, in order.
\<close>

definition look ::
  "'n CADObject \<Rightarrow> ShapeType \<times> 'n Vector3 \<times> 'n Vector3 \<times> 'n Vector3 \<times> string" where
  "look obj = (type obj, position obj, rotation obj, scale obj, color obj)"

text \<open>Two runs of a script in general end alike.\<close>

definition same_finish ::
  "(Thrown + ExecState) option \<Rightarrow> (Thrown + ExecState) option \<Rightarrow> bool" where
  "same_finish r r' =
     (case r of
        None \<Rightarrow> r' = None
      | Some (Inl e) \<Rightarrow> r' = Some (Inl e)
      | Some (Inr st) \<Rightarrow> (case r' of Some (Inr st') \<Rightarrow> same_run st st' | _ \<Rightarrow> False))"

text \<open>
  A direct change is blind when it does not depend on the identifiers: from states that
  differ in the identifiers alone it leads to states that differ in the identifiers
  alone. It keeps the identifiers when the objects of the context have the same
  identifiers, in the same order, after it as before it.
\<close>

definition blind :: "(ExecState \<Rightarrow> ExecState) \<Rightarrow> bool" where
  "blind f = (\<forall>st st'. same_run st st' \<longrightarrow> same_run (f st) (f st'))"

definition keeps_ids :: "(ExecState \<Rightarrow> ExecState) \<Rightarrow> bool" where
  "keeps_ids f = (\<forall>st. map id (ctx_objects (f st)) = map id (ctx_objects st))"

text \<open>All direct changes that a script text can make have a given property.\<close>

fun alters_all :: "((ExecState \<Rightarrow> ExecState) \<Rightarrow> bool) \<Rightarrow> Code \<Rightarrow> bool" where
  "alters_all P No_parse = True"
| "alters_all P (Behaviour script) = (\<forall>seen f. script seen = Alter f \<longrightarrow> P f)"

text \<open>
  The starter script of \<open>App.tsx\<close> by what it does, and the script
  \<open>if (Math.random() < 0.5) Add(Box(), "Lucky");\<close> with two hosts whose
  \<open>Math.random()\<close> gives 0.25 and 0.75. None of the scripts of the examples
  catches a fault.
\<close>

fun starter_cube_code :: "Observation list \<Rightarrow> Step" where
  "starter_cube_code [] = Invoke (Call_Box (Some (Finite 1)) (Some (Finite 1)) (Some (Finite 1)))"
| "starter_cube_code [Returned cube] = Invoke (Call_Color cube ''#3b82f6'')"
| "starter_cube_code [Returned cube, Returned c] = Invoke (Call_Add cube ''Starter Cube'')"
| "starter_cube_code [Returned cube, Returned c, Returned u] = Finish"
| "starter_cube_code seen =
     (case last seen of Threw f \<Rightarrow> Throw (Fault_thrown f) | _ \<Rightarrow> Finish)"

fun lucky_cube :: "Observation list \<Rightarrow> Step" where
  "lucky_cube [] = Consult ''Math''"
| "lucky_cube [Answered (HostNumber (Finite r))] =
     (if r < 1 / 2 then Invoke (Call_Box None None None) else Finish)"
| "lucky_cube [Answered a, Returned cube] = Invoke (Call_Add cube ''Lucky'')"
| "lucky_cube seen = (case last seen of Threw f \<Rightarrow> Throw (Fault_thrown f) | _ \<Rightarrow> Finish)"

definition low_host :: "nat \<Rightarrow> string \<Rightarrow> HostData" where
  "low_host k x = HostNumber (Finite (1 / 4))"

definition high_host :: "nat \<Rightarrow> string \<Rightarrow> HostData" where
  "high_host k x = HostNumber (Finite (3 / 4))"

text \<open>
  The script \<open>Add(Box(), "Mine"); ctx.objects.forEach(o => o.id = "mine");\<close>,
  which writes identifiers of its own.
\<close>

fun own_id :: "Observation list \<Rightarrow> Step" where
  "own_id [] = Invoke (Call_Box None None None)"
| "own_id [Returned cube] = Invoke (Call_Add cube ''Mine'')"
| "own_id [Returned cube, Returned u] =
     Alter (\<lambda>st. st\<lparr>ctx_objects := map (\<lambda>obj. obj\<lparr>id := ''mine''\<rparr>) (ctx_objects st)\<rparr>)"
| "own_id seen = (case last seen of Threw f \<Rightarrow> Throw (Fault_thrown f) | _ \<Rightarrow> Finish)"

text \<open>
  The script
  \<open>Add(Box(), "Picky"); if (ctx.objects[0].id === "obj_0_1700000000000") ctx.objects.pop();\<close>,
  which acts on an identifier.
\<close>

fun picky :: "Observation list \<Rightarrow> Step" where
  "picky [] = Invoke (Call_Box None None None)"
| "picky [Returned cube] = Invoke (Call_Add cube ''Picky'')"
| "picky [Returned cube, Returned u] =
     Alter (\<lambda>st. if map id (ctx_objects st) = [''obj_0_1700000000000'']
                then st\<lparr>ctx_objects := butlast (ctx_objects st)\<rparr> else st)"
| "picky seen = (case last seen of Threw f \<Rightarrow> Throw (Fault_thrown f) | _ \<Rightarrow> Finish)"

section \<open>Sequences of operations on a SceneManager\<close>

text \<open>
  The public methods that change a manager, as operations. The fresh identifiers a
  \<open>duplicateObject\<close> or a \<open>processCommands\<close> would draw are part of the operation.
\<close>

datatype Operation =
    Rename string string
  | Duplicate string string
  | Commands "nat \<Rightarrow> string" "AICommand list"
  | Undo
  | Redo
  | Load json_text

fun apply_op :: "Operation \<Rightarrow> SceneManager \<Rightarrow> SceneManager" where
  "apply_op (Rename i n) s = renameObject i n s"
| "apply_op (Duplicate newId i) s = duplicateObject newId i s"
| "apply_op (Commands gen commands) s = processCommands gen commands s"
| "apply_op Undo s = undo s"
| "apply_op Redo s = redo s"
| "apply_op (Load json) s = loadScene json s"

fun run :: "Operation list \<Rightarrow> SceneManager \<Rightarrow> SceneManager" where
  "run [] s = s"
| "run (op # ops) s = run ops (apply_op op s)"

text \<open>The states in which the operations of a sequence start, in order.\<close>

fun states_before :: "Operation list \<Rightarrow> SceneManager \<Rightarrow> SceneManager list" where
  "states_before [] s = []"
| "states_before (op # ops) s = s # states_before ops (apply_op op s)"







text \<open>The two stacks together never hold more than \<open>maxHistory\<close> snapshots.\<close>

definition stacks_bounded :: "SceneManager \<Rightarrow> bool" where
  "stacks_bounded s = (length (history s) + length (redoStack s) \<le> maxHistory)"

text \<open>A CREATE command for an object \<open>A\<close> named \<open>X\<close>, for the examples.\<close>

definition create_X :: AICommand where
  "create_X = \<lparr>action = CREATE, targetId = None, reasoning = None,
     objectData = Some \<lparr>p_id = Some ''A'', p_name = Some ''X'', p_type = None,
        p_position = None, p_rotation = None, p_scale = None, p_color = None, p_args = None,
        p_selected = None, p_visible = None, p_geometryData = None\<rparr>\<rparr>"


text \<open>
  A batch that creates \<open>A\<close> and \<open>B\<close> and then updates \<open>A\<close> with an
  \<open>objectData\<close> whose \<open>id\<close> is \<open>B\<close>.
\<close>

definition create_B :: AICommand where
  "create_B = \<lparr>action = CREATE, targetId = None, reasoning = None,
     objectData = Some \<lparr>p_id = Some ''B'', p_name = Some ''Other'', p_type = None,
        p_position = None, p_rotation = None, p_scale = None, p_color = None, p_args = None,
        p_selected = None, p_visible = None, p_geometryData = None\<rparr>\<rparr>"

definition update_A_id_B :: AICommand where
  "update_A_id_B = \<lparr>action = UPDATE, targetId = Some ''A'', reasoning = None,
     objectData = Some \<lparr>p_id = Some ''B'', p_name = None, p_type = None,
        p_position = None, p_rotation = None, p_scale = None, p_color = None, p_args = None,
        p_selected = None, p_visible = None, p_geometryData = None\<rparr>\<rparr>"

definition two_objects_one_id :: SceneManager where
  "two_objects_one_id =
     processCommands (\<lambda>k. ''fresh'') [create_X, create_B, update_A_id_B] new_SceneManager"






section \<open>Properties of the SceneManager\<close>

subsection \<open>The effect of the single operations\<close>

lemma getUniqueName_free:
  "baseName \<notin> set (taken_names s ex) \<Longrightarrow> getUniqueName s baseName ex = baseName"
  by (simp add: getUniqueName_def)

lemma saveState_fields:
  "objects (saveState s) = objects s"
  "redoStack (saveState s) = []"
  "history (saveState s) =
     (if length (history s) < maxHistory then history s @ [exportScene s]
      else tl (history s @ [exportScene s]))"
  by (auto simp: saveState_def Let_def)

lemma taken_names_saveState: "taken_names (saveState s) ex = taken_names s ex"
  by (simp add: taken_names_def saveState_fields)

lemma renameObject_effect:
  assumes "map_get (objects s) i = Some obj" and "name obj \<noteq> n"
    and "n \<notin> set (taken_names s (Some i))"
  shows "renameObject i n s =
           (saveState s)\<lparr>objects := map_set i (obj\<lparr>name := n\<rparr>) (objects s)\<rparr>"
  using assms
  by (simp add: renameObject_def Let_def getUniqueName_free taken_names_saveState saveState_fields)

lemma undo_effect:
  assumes "history s = h @ [ObjArray l]"
  shows "undo s = \<lparr>objects = set_all l [], history = h,
                    redoStack = redoStack s @ [exportScene s]\<rparr>"
  using assms by (simp add: undo_def Let_def loadScene_def)

lemma create_on_new:
  assumes "action cmd = CREATE" "objectData cmd = Some d" "p_id d = Some i" "i \<noteq> []"
    "p_name d = Some x" "x \<noteq> []"
  shows "processCommands gen [cmd] new_SceneManager =
           \<lparr>objects = [(i, created_object i x d)], history = [ObjArray []], redoStack = []\<rparr>"
  using assms
  by (simp add: processCommands_def processCommand_def modifiesScene_def saveState_def
      exportScene_def JSON_stringify_def map_values_def new_SceneManager_def maxHistory_def
      truthy_str_def Let_def getUniqueName_def taken_names_def created_object_def)


subsection \<open>Maps and numerals\<close>





lemma string_of_nat_numeral [simp]:
  "string_of_nat (numeral k) =
     (if numeral k < (10::nat) then [digit_char (numeral k)]
      else string_of_nat (numeral k div 10) @ [digit_char (numeral k mod 10)])"
  by (rule string_of_nat.simps)

lemma string_of_nat_0 [simp]: "string_of_nat 0 = ''0''"
  by (simp add: string_of_nat.simps [of 0] digit_char_def)

lemma string_of_nat_1 [simp]: "string_of_nat (Suc 0) = ''1''"
  by (simp add: string_of_nat.simps [of "Suc 0"] digit_char_def)

lemma next_candidate_taken:
  "baseName @ string_of_nat counter \<in> set taken \<Longrightarrow>
   next_candidate taken baseName counter = next_candidate taken baseName (Suc counter)"
  by (subst next_candidate.simps) simp

lemma next_candidate_free:
  "baseName @ string_of_nat counter \<notin> set taken \<Longrightarrow>
   next_candidate taken baseName counter = baseName @ string_of_nat counter"
  by (subst next_candidate.simps) simp

subsection \<open>The bound on the history\<close>

lemma loadScene_stacks [simp]:
  "history (loadScene j s) = history s" "redoStack (loadScene j s) = redoStack s"
  by (simp_all add: loadScene_def split: json_text.splits)








lemma bounded_objects [simp]: "stacks_bounded (s\<lparr>objects := m\<rparr>) = stacks_bounded s"
  by (simp add: stacks_bounded_def)















lemma length_states_before [simp]: "length (states_before ops s) = length ops"
  by (induction ops arbitrary: s) simp_all












subsection \<open>Batches with a history command\<close>








subsection \<open>Rename twice, undo twice\<close>

text \<open>
  Claim C7. On a fresh manager, create an object with identifier \<open>i\<close> and name
  \<open>x\<close> by a CREATE command, rename it to \<open>y\<close> and then to \<open>z\<close>
  (\<open>x \<noteq> y\<close>, \<open>y \<noteq> z\<close>, so that each renaming takes place and is snapshotted).
  Then the scene holds the one object under the name \<open>z\<close>; after one \<open>undo\<close> its
  name is \<open>y\<close>, after a second \<open>undo\<close> its name is \<open>x\<close>, and it keeps its
  identifier.
\<close>

theorem rename_rename_undo_undo:
  fixes gen :: "nat \<Rightarrow> string" and cmd :: AICommand and i x y z :: string
  assumes cmd: "action cmd = CREATE" "objectData cmd = Some d" "p_id d = Some i" "p_name d = Some x"
    and ne: "i \<noteq> []" "x \<noteq> []" and xy: "x \<noteq> y" and yz: "y \<noteq> z"
  defines "s1 \<equiv> processCommands gen [cmd] new_SceneManager"
  defines "s3 \<equiv> renameObject i z (renameObject i y s1)"
  shows "map name (getObjects s1) = [x]
       \<and> map name (getObjects s3) = [z]
       \<and> map name (getObjects (undo s3)) = [y]
       \<and> map name (getObjects (undo (undo s3))) = [x]
       \<and> map id (getObjects (undo s3)) = [i]
       \<and> map id (getObjects (undo (undo s3))) = [i]"
proof -
  define o1 where "o1 = created_object i x d"
  have o1: "id o1 = i" "name o1 = x"
    by (simp_all add: o1_def created_object_def)
  have s1: "s1 = \<lparr>objects = [(i, o1)], history = [ObjArray []], redoStack = []\<rparr>"
    unfolding s1_def o1_def using cmd ne by (simp add: create_on_new)
  define s2 where "s2 = renameObject i y s1"
  have s2: "s2 = \<lparr>objects = [(i, o1\<lparr>name := y\<rparr>)],
                   history = [ObjArray [], ObjArray [o1]], redoStack = []\<rparr>"
    unfolding s2_def
    by (subst renameObject_effect [where obj = o1])
       (simp_all add: s1 o1 xy taken_names_def map_values_def saveState_def exportScene_def
          JSON_stringify_def maxHistory_def Let_def)
  have s3: "s3 = \<lparr>objects = [(i, o1\<lparr>name := z\<rparr>)],
                   history = [ObjArray [], ObjArray [o1], ObjArray [o1\<lparr>name := y\<rparr>]],
                   redoStack = []\<rparr>"
    unfolding s3_def s2_def [symmetric]
    by (subst renameObject_effect [where obj = "o1\<lparr>name := y\<rparr>"])
       (simp_all add: s2 o1 yz taken_names_def map_values_def saveState_def exportScene_def
          JSON_stringify_def maxHistory_def Let_def)
  have u1: "undo s3 = \<lparr>objects = [(i, o1\<lparr>name := y\<rparr>)],
                        history = [ObjArray [], ObjArray [o1]],
                        redoStack = [ObjArray [o1\<lparr>name := z\<rparr>]]\<rparr>"
    by (subst undo_effect [where h = "[ObjArray [], ObjArray [o1]]" and l = "[o1\<lparr>name := y\<rparr>]"])
       (simp_all add: s3 set_all_def o1 exportScene_def JSON_stringify_def map_values_def)
  have u2: "undo (undo s3) = \<lparr>objects = [(i, o1)],
                        history = [ObjArray []],
                        redoStack = [ObjArray [o1\<lparr>name := z\<rparr>], ObjArray [o1\<lparr>name := y\<rparr>]]\<rparr>"
    by (subst undo_effect [where h = "[ObjArray []]" and l = "[o1]"])
       (simp_all add: u1 set_all_def o1 exportScene_def JSON_stringify_def map_values_def)
  have "map name (getObjects s1) = [x]" "map name (getObjects s3) = [z]"
    by (simp_all add: s1 s3 getObjects_def map_values_def o1)
  moreover have "map name (getObjects (undo s3)) = [y]" "map id (getObjects (undo s3)) = [i]"
    by (simp_all add: u1 getObjects_def map_values_def o1)
  moreover have "map name (getObjects (undo (undo s3))) = [x]"
    "map id (getObjects (undo (undo s3))) = [i]"
    by (simp_all add: u2 getObjects_def map_values_def o1)
  ultimately show ?thesis
    by simp
qed


theorem rename_rename_undo_undo_witness:
  "map name (getObjects (processCommands (\<lambda>k. ''fresh'') [create_X] new_SceneManager)) = [''X'']
   \<and> map name (getObjects (renameObject ''A'' ''Z'' (renameObject ''A'' ''Y''
         (processCommands (\<lambda>k. ''fresh'') [create_X] new_SceneManager)))) = [''Z'']
   \<and> map name (getObjects (undo (renameObject ''A'' ''Z'' (renameObject ''A'' ''Y''
         (processCommands (\<lambda>k. ''fresh'') [create_X] new_SceneManager))))) = [''Y'']
   \<and> map name (getObjects (undo (undo (renameObject ''A'' ''Z'' (renameObject ''A'' ''Y''
         (processCommands (\<lambda>k. ''fresh'') [create_X] new_SceneManager)))))) = [''X'']"
  using rename_rename_undo_undo [of create_X "the (objectData create_X)" "''A''" "''X''" "''Y''" "''Z''" "\<lambda>k. ''fresh''"]
  by (simp add: create_X_def)

subsection \<open>CREATE on an identifier that is in use\<close>




subsection \<open>Export and import\<close>

text \<open>
  Importing an export gives the manager back when every object is stored under its own
  identifier.
\<close>

lemma map_set_absent: "k \<notin> fst ` set m \<Longrightarrow> map_set k v m = m @ [(k, v)]"
  by (induction m) auto

lemma set_all_keyed:
  assumes "distinct (map fst m)" and "\<forall>e \<in> set m. id (snd e) = fst e"
    and "fst ` set m \<inter> fst ` set acc = {}"
  shows "set_all (map_values m) acc = acc @ m"
  using assms
proof (induction m arbitrary: acc)
  case Nil
  show ?case by (simp add: set_all_def map_values_def)
next
  case (Cons e m)
  obtain k v where e: "e = (k, v)" by (cases e)
  from Cons.prems e have kv: "id v = k" and fresh: "k \<notin> fst ` set acc" and d: "distinct (map fst m)"
    and notin: "k \<notin> fst ` set m" and rest: "\<forall>e \<in> set m. id (snd e) = fst e"
    by auto
  have disj: "fst ` set m \<inter> fst ` set (acc @ [(k, v)]) = {}"
    using Cons.prems(3) notin e by auto
  have "set_all (map_values (e # m)) acc = set_all (map_values m) (map_set k v acc)"
    by (simp add: set_all_def map_values_def e kv)
  also have "\<dots> = set_all (map_values m) (acc @ [(k, v)])"
    using fresh by (simp add: map_set_absent)
  also have "\<dots> = (acc @ [(k, v)]) @ m"
    using d rest disj by (rule Cons.IH)
  finally show ?case
    by (simp add: e)
qed

lemma roundtrip_when_keyed:
  assumes "distinct (map fst (objects s))" and "\<forall>e \<in> set (objects s). id (snd e) = fst e"
  shows "loadScene (exportScene s) s = s"
  using set_all_keyed [OF assms, of "[]"]
  by (simp add: loadScene_def exportScene_def JSON_stringify_def)

lemma two_objects_one_id_objects:
  "objects two_objects_one_id =
     [(''A'', (created_object ''A'' ''X'' (the (objectData create_X)))\<lparr>id := ''B''\<rparr>),
      (''B'', created_object ''B'' ''Other'' (the (objectData create_B)))]"
  by (simp add: two_objects_one_id_def processCommands_def processCommand_def modifiesScene_def
      create_X_def create_B_def update_A_id_B_def saveState_def exportScene_def
      JSON_stringify_def map_values_def new_SceneManager_def maxHistory_def truthy_str_def
      or_str_def command_targetId_def getUniqueName_def taken_names_def created_object_def
      merge_updates_def map_has_def Let_def)

text \<open>
  Claim C9 (importing an export gives back the same objects) fails on the state that
  the batch \<open>CREATE A, CREATE B, UPDATE A with objectData.id = B\<close> reaches from a new
  manager. UPDATE merges the \<open>id\<close> of its \<open>objectData\<close> into the object stored
  under \<open>targetId\<close>, so the scene holds two objects with the identifier \<open>B\<close>,
  under the keys \<open>A\<close> and \<open>B\<close>. \<open>loadScene\<close> keys what it reads by the
  \<open>id\<close> field: of the two objects exported, one is left after the import.
\<close>

theorem roundtrip_loses_object:
  "map id (getObjects two_objects_one_id) = [''B'', ''B'']
   \<and> map name (getObjects two_objects_one_id) = [''X'', ''Other'']
   \<and> map id (getObjects (loadScene (exportScene two_objects_one_id) two_objects_one_id)) = [''B'']
   \<and> map name (getObjects (loadScene (exportScene two_objects_one_id) two_objects_one_id)) =
       [''Other'']"
  by (simp add: two_objects_one_id_objects getObjects_def map_values_def loadScene_def
      exportScene_def JSON_stringify_def set_all_def created_object_def)

section \<open>Properties of the CSG engine\<close>

lemmas csg_defs = execute_def new_CADContext_def Box_def Sphere_def Cylinder_def Move_def
  Rotate_def Scale_def Color_def csg_def Union_csg_def Subtract_def Intersect_def Add_def
  getResults_def alloc_def get_brush_def put_brush_def new_Brush_def updateMatrixWorld_def
  truthy_def or_value_def default_arg_def object_id_def context_material_def
  identity_transform_def evaluate_def resolve_def builtin_names_def


subsection \<open>Boolean operations with a missing operand\<close>

lemma absent_falsy: "absent v \<Longrightarrow> \<not> truthy v"
  by (auto simp: absent_def truthy_def)

lemma csg_falsy:
  assumes "\<not> truthy a \<or> \<not> truthy b"
  shows "csg operation a b st = Inr (if truthy a then a else b, st)"
  using assms by (auto simp: csg_def or_value_def)


text \<open>
  Claim C2, as the code has it. For each of \<open>Union\<close>, \<open>Subtract\<close> and
  \<open>Intersect\<close>: when the first operand is null or absent the call returns the second
  operand, and when the second is null or absent and the first is a truthy value (as
  every brush is) it returns the first; the state is unchanged and nothing is thrown.
  So with exactly one operand missing the other one is returned, and with both missing
  the second operand, itself null or absent, is returned: no error is raised.
\<close>

theorem boolean_with_absent_operand:
  assumes "f = Union_csg \<or> f = Subtract \<or> f = Intersect"
  shows "(absent a \<longrightarrow> f a b st = Inr (b, st))
       \<and> (truthy a \<and> absent b \<longrightarrow> f a b st = Inr (a, st))"
proof -
  have "f a b st = Inr (b, st)" if "absent a"
    using assms csg_falsy [of a b _ st] absent_falsy [OF that]
    by (auto simp: Union_csg_def Subtract_def Intersect_def)
  moreover have "f a b st = Inr (a, st)" if "truthy a" "absent b"
    using assms csg_falsy [of a b _ st] absent_falsy [OF that(2)] that(1)
    by (auto simp: Union_csg_def Subtract_def Intersect_def)
  ultimately show ?thesis
    by blast
qed

theorem boolean_with_absent_operand_witness:
  "Subtract (BrushRef 0) Undefined (snd (Box (Finite 1) (Finite 1) (Finite 1) new_CADContext)) =
     Inr (BrushRef 0, snd (Box (Finite 1) (Finite 1) (Finite 1) new_CADContext))
   \<and> Union_csg Null (BrushRef 0) (snd (Box (Finite 1) (Finite 1) (Finite 1) new_CADContext)) =
     Inr (BrushRef 0, snd (Box (Finite 1) (Finite 1) (Finite 1) new_CADContext))"
  using boolean_with_absent_operand [of Subtract "BrushRef 0" Undefined "snd (Box (Finite 1) (Finite 1) (Finite 1) new_CADContext)"]
    boolean_with_absent_operand [of Union_csg Null "BrushRef 0" "snd (Box (Finite 1) (Finite 1) (Finite 1) new_CADContext)"]
  by (simp add: absent_def truthy_def)

theorem both_operands_null_counterexample:
  "Union_csg Null Null new_CADContext = Inr (Null, new_CADContext)
   \<and> Subtract Null Null new_CADContext = Inr (Null, new_CADContext)
   \<and> Intersect Null Undefined new_CADContext = Inr (Undefined, new_CADContext)
   \<and> execute example_runtime (Suc (Suc 0))
        (Program [ExprStmt (CallAdd (CallUnion NullLit NullLit) ''Nothing'')]) = Some (Inr [])"
  by (simp add: Union_csg_def Subtract_def Intersect_def csg_def truthy_def or_value_def
      execute_def Add_def getResults_def new_CADContext_def)


subsection \<open>Primitives take every dimension\<close>

lemma Box_result:
  "fst (Box w h d st) = BrushRef (length (heap st))"
  "map geometry (heap (snd (Box w h d st))) = map geometry (heap st) @ [BoxGeometry w h d]"
  "ctx_objects (snd (Box w h d st)) = ctx_objects st"
  by (simp_all add: Box_def alloc_def new_Brush_def updateMatrixWorld_def Let_def)

lemma Sphere_result:
  "fst (Sphere r st) = BrushRef (length (heap st))"
  "map geometry (heap (snd (Sphere r st))) = map geometry (heap st) @ [SphereGeometry r 32 32]"
  "ctx_objects (snd (Sphere r st)) = ctx_objects st"
  by (simp_all add: Sphere_def alloc_def new_Brush_def updateMatrixWorld_def Let_def)

lemma Cylinder_result:
  "fst (Cylinder rt rb h st) = BrushRef (length (heap st))"
  "map geometry (heap (snd (Cylinder rt rb h st))) =
     map geometry (heap st) @ [CylinderGeometry rt rb h 32]"
  "ctx_objects (snd (Cylinder rt rb h st)) = ctx_objects st"
  by (simp_all add: Cylinder_def alloc_def new_Brush_def updateMatrixWorld_def Let_def)

lemma add_primitive_runs:
  assumes "eval rt [] e new_CADContext = Inr p" and "fst p = BrushRef 0"
    and "map geometry (heap (snd p)) = [g]" and "ctx_objects (snd p) = []"
  shows "map_option (map_sum (\<lambda>e. e) (map geometryData))
           (execute rt (Suc (Suc n)) (Program [ExprStmt (CallAdd e nm)])) = Some (Inr [Some g])"
proof -
  obtain v st where p: "p = (v, st)" by (cases p)
  with assms obtain b where "heap st = [b]" "geometry b = g" "v = BrushRef 0" "ctx_objects st = []"
    by auto
  then show ?thesis
    using assms(1) p
    by (simp add: execute_def Add_def truthy_def get_brush_def getResults_def Let_def)
qed


text \<open>
  Claim C6, as the code has it. \<open>Box\<close>, \<open>Sphere\<close> and \<open>Cylinder\<close> build a
  brush from whatever dimensions they are given, negative and zero ones, \<open>NaN\<close> and
  the infinities included: the
  call returns a reference to a new brush whose geometry carries these dimensions, and a
  script that adds the brush runs to its end with that geometry in its result. No
  dimension makes a primitive fail.
\<close>

theorem primitives_accept_any_dimension:
  "eval rt env (CallBox (Some w) (Some h) (Some d)) st = Inr (Box w h d st)
   \<and> fst (Box w h d st) = BrushRef (length (heap st))
   \<and> map geometry (heap (snd (Box w h d st))) = map geometry (heap st) @ [BoxGeometry w h d]
   \<and> eval rt env (CallSphere (Some r)) st = Inr (Sphere r st)
   \<and> fst (Sphere r st) = BrushRef (length (heap st))
   \<and> map geometry (heap (snd (Sphere r st))) = map geometry (heap st) @ [SphereGeometry r 32 32]
   \<and> eval rt env (CallCylinder (Some rTop) (Some rBottom) (Some ht)) st =
       Inr (Cylinder rTop rBottom ht st)
   \<and> fst (Cylinder rTop rBottom ht st) = BrushRef (length (heap st))
   \<and> map geometry (heap (snd (Cylinder rTop rBottom ht st))) =
       map geometry (heap st) @ [CylinderGeometry rTop rBottom ht 32]
   \<and> map_option (map_sum (\<lambda>e. e) (map geometryData))
        (execute rt (Suc (Suc n)) (Program [ExprStmt (CallAdd (CallBox (Some w) (Some h) (Some d)) nm)])) =
       Some (Inr [Some (BoxGeometry w h d)])
   \<and> map_option (map_sum (\<lambda>e. e) (map geometryData))
        (execute rt (Suc (Suc n)) (Program [ExprStmt (CallAdd (CallSphere (Some r)) nm)])) =
       Some (Inr [Some (SphereGeometry r 32 32)])
   \<and> map_option (map_sum (\<lambda>e. e) (map geometryData))
        (execute rt (Suc (Suc n))
          (Program [ExprStmt (CallAdd (CallCylinder (Some rTop) (Some rBottom) (Some ht)) nm)])) =
       Some (Inr [Some (CylinderGeometry rTop rBottom ht 32)])"
proof -
  have "map_option (map_sum (\<lambda>e. e) (map geometryData))
        (execute rt (Suc (Suc n)) (Program [ExprStmt (CallAdd (CallBox (Some w) (Some h) (Some d)) nm)])) =
       Some (Inr [Some (BoxGeometry w h d)])"
    by (rule add_primitive_runs [where p = "Box w h d new_CADContext"])
       (simp_all add: Box_result default_arg_def, simp_all add: new_CADContext_def)
  moreover have "map_option (map_sum (\<lambda>e. e) (map geometryData))
        (execute rt (Suc (Suc n)) (Program [ExprStmt (CallAdd (CallSphere (Some r)) nm)])) =
       Some (Inr [Some (SphereGeometry r 32 32)])"
    by (rule add_primitive_runs [where p = "Sphere r new_CADContext"])
       (simp_all add: Sphere_result default_arg_def, simp_all add: new_CADContext_def)
  moreover have "map_option (map_sum (\<lambda>e. e) (map geometryData))
        (execute rt (Suc (Suc n))
          (Program [ExprStmt (CallAdd (CallCylinder (Some rTop) (Some rBottom) (Some ht)) nm)])) =
       Some (Inr [Some (CylinderGeometry rTop rBottom ht 32)])"
    by (rule add_primitive_runs [where p = "Cylinder rTop rBottom ht new_CADContext"])
       (simp_all add: Cylinder_result default_arg_def, simp_all add: new_CADContext_def)
  ultimately show ?thesis
    by (simp add: Box_result Sphere_result Cylinder_result default_arg_def)
qed

theorem primitives_accept_any_dimension_witness:
  "eval example_runtime [] (CallBox (Some (Finite (- 3))) (Some NaN) (Some PosInfinity))
     new_CADContext = Inr (Box (Finite (- 3)) NaN PosInfinity new_CADContext)
   \<and> fst (Box (Finite (- 3)) NaN PosInfinity new_CADContext) = BrushRef 0
   \<and> map geometry (heap (snd (Box (Finite (- 3)) NaN PosInfinity new_CADContext))) =
       [BoxGeometry (Finite (- 3)) NaN PosInfinity]"
  using primitives_accept_any_dimension
    [of example_runtime "[]" "Finite (- 3)" NaN PosInfinity new_CADContext]
  by (simp add: new_CADContext_def)

theorem negative_dimension_counterexample:
  "fst (Box (Finite (- 1)) (Finite 1) (Finite 1) new_CADContext) = BrushRef 0
   \<and> map geometry (heap (snd (Box (Finite (- 1)) (Finite 1) (Finite 1) new_CADContext))) =
       [BoxGeometry (Finite (- 1)) (Finite 1) (Finite 1)]
   \<and> map_option (map_sum (\<lambda>e. e) (map geometryData))
        (execute example_runtime (Suc (Suc 0))
          (Program [ExprStmt (CallAdd (CallSphere (Some (Finite (- 2)))) ''Ball'')])) =
      Some (Inr [Some (SphereGeometry (Finite (- 2)) 32 32)])
   \<and> map_option (map_sum (\<lambda>e. e) (map geometryData))
        (execute example_runtime (Suc (Suc 0))
          (Program [ExprStmt (CallAdd (CallCylinder (Some NaN) (Some PosInfinity)
             (Some NegInfinity)) ''Rod'')])) =
      Some (Inr [Some (CylinderGeometry NaN PosInfinity NegInfinity 32)])"
  by (simp add: csg_defs)


subsection \<open>Names a script can see\<close>

text \<open>
  Claim C1, as the code has it. An identifier of the script that the script does not
  declare itself refers to the builtin of that name when it is one of the eleven names
  of the table, to the context object when it is \<open>ctx\<close>, to the arguments object when
  it is \<open>arguments\<close>, and to the value the host's global scope binds to it when there
  is one; only a name bound in none of these is a ReferenceError.
\<close>

theorem names_visible_in_script:
  "eval rt env (Ident x) st =
     (if x \<in> set builtin_names then Inr (BuiltinFn x, st)
      else if x = ''ctx'' then Inr (CtxObject, st)
      else if x = ''arguments'' then Inr (ArgumentsObject, st)
      else if global_scope rt x then Inr (HostValue x, st)
      else Inl ReferenceError)"
  by (simp add: resolve_def)

theorem names_visible_in_script_witness:
  "eval example_runtime [] (Ident ''Math'') new_CADContext = Inr (HostValue ''Math'', new_CADContext)"
  using names_visible_in_script [of example_runtime "[]" "''Math''" new_CADContext]
  by (simp add: builtin_names_def example_runtime_def)

theorem ambient_names_counterexample:
  "''ctx'' \<notin> set builtin_names \<and> ''fetch'' \<notin> set builtin_names
   \<and> execute example_runtime (Suc (Suc 0)) (Program [Const (Ident ''ctx'')]) = Some (Inr [])
   \<and> execute example_runtime (Suc (Suc 0)) (Program [Const (Ident ''fetch'')]) = Some (Inr [])
   \<and> execute example_runtime (Suc (Suc 0)) (Program [Const (Ident ''nosuchname'')]) =
       Some (Inl (WrappedError ReferenceError))"
  by (simp add: csg_defs example_runtime_def)


subsection \<open>No step budget\<close>

lemma exec_loop_free:
  assumes "list_all (\<lambda>s. \<not> is_While s) stmts"
  shows "\<exists>r. exec rt (Suc (length stmts)) stmts env st = Some r"
  using assms
proof (induction stmts arbitrary: env st)
  case Nil
  show ?case by simp
next
  case (Cons s stmts)
  then have rest: "\<And>env st. \<exists>r. exec rt (Suc (length stmts)) stmts env st = Some r"
    by simp
  show ?case
  proof (cases s)
    case (Const e)
    show ?thesis
      using rest by (cases "eval rt env e st") (auto simp: Const)
  next
    case (ExprStmt e)
    show ?thesis
      using rest by (cases "eval rt env e st") (auto simp: ExprStmt)
  next
    case (While c body)
    with Cons.prems show ?thesis by simp
  qed
qed

lemma exec_while_true: "exec rt n (While (BoolLit True) [] # rest) env st = None"
  by (induction n) (simp_all add: truthy_def)

lemma exec_more_steps:
  "exec rt n stmts env st = Some r \<Longrightarrow> exec rt (n + k) stmts env st = Some r"
proof (induction n arbitrary: stmts env st)
  case 0
  then show ?case by simp
next
  case (Suc n)
  show ?case
  proof (cases stmts)
    case Nil
    with Suc.prems show ?thesis by simp
  next
    case (Cons s rest)
    show ?thesis
    proof (cases s)
      case (Const e)
      with Suc Cons show ?thesis
        by (cases "eval rt env e st") auto
    next
      case (ExprStmt e)
      with Suc Cons show ?thesis
        by (cases "eval rt env e st") auto
    next
      case (While c body)
      with Suc Cons show ?thesis
        by (cases "eval rt env c st") (auto split: if_splits)
    qed
  qed
qed


text \<open>
  Claim C5, as the code has it. \<open>execute\<close> counts no steps and measures no time. A
  script without a loop ends after one step for each statement; a script that starts
  with \<open>while (true) {}\<close> has not ended after any number of steps; and a run that has
  ended with a result within \<open>n\<close> steps has the same result within any larger
  number. The errors of \<open>execute\<close> are a syntax error and a wrapped fault of the
  script: there is no timeout.
\<close>

theorem execute_has_no_budget:
  "(list_all (\<lambda>s. \<not> is_While s) stmts \<longrightarrow>
      (\<exists>r. execute rt (Suc (length stmts)) (Program stmts) = Some r))
   \<and> execute rt n (Program (While (BoolLit True) [] # rest)) = None
   \<and> (execute rt n code = Some r \<longrightarrow> execute rt (n + k) code = Some r)"
proof -
  have "\<exists>r. execute rt (Suc (length stmts)) (Program stmts) = Some r"
    if "list_all (\<lambda>s. \<not> is_While s) stmts"
  proof -
    from exec_loop_free [OF that] obtain q
      where "exec rt (Suc (length stmts)) stmts [] new_CADContext = Some q"
      by blast
    then show ?thesis
      by (cases q) (simp_all add: execute_def)
  qed
  moreover have "execute rt n (Program (While (BoolLit True) [] # rest)) = None"
    by (simp add: execute_def exec_while_true)
  moreover have "execute rt (n + k) code = Some r" if "execute rt n code = Some r"
  proof (cases code)
    case Unparsable
    with that show ?thesis by (simp add: execute_def)
  next
    case (Program stmts)
    with that obtain q where "exec rt n stmts [] new_CADContext = Some q"
      by (auto simp: execute_def split: option.splits)
    then have "exec rt (n + k) stmts [] new_CADContext = Some q"
      by (rule exec_more_steps)
    with that Program \<open>exec rt n stmts [] new_CADContext = Some q\<close> show ?thesis
      by (simp add: execute_def)
  qed
  ultimately show ?thesis
    by blast
qed

theorem execute_has_no_budget_witness:
  "(\<exists>r. execute example_runtime (Suc (Suc (Suc 0)))
        (Program [Const (CallBox None None None), ExprStmt (CallAdd (Ref 0) ''Cube'')]) = Some r)
   \<and> execute example_runtime 1000 (Program [While (BoolLit True) [], ExprStmt (CallAdd (Ref 0) ''Cube'')]) = None"
  using execute_has_no_budget [of "[Const (CallBox None None None), ExprStmt (CallAdd (Ref 0) ''Cube'')]"
      example_runtime 1000 "[ExprStmt (CallAdd (Ref 0) ''Cube'')]"]
  by simp

theorem endless_loop_counterexample:
  "\<forall>n. execute example_runtime n (Program [While (BoolLit True) []]) = None"
  by (simp add: execute_def exec_while_true)


subsection \<open>Two boxes named Cube\<close>

lemma two_boxes_names:
  "map_option (map_sum (\<lambda>e. e) (map name))
     (execute rt (Suc (Suc (Suc n)))
        (two_cubes (CallBox w1 h1 d1) (CallBox w2 h2 d2))) = Some (Inr [''Cube'', ''Cube''])"
  by (simp add: two_cubes_def execute_def Box_def alloc_def Add_def truthy_def get_brush_def
      getResults_def new_CADContext_def Let_def nth_append)

lemma create_two_same_name:
  assumes c1: "action c1 = CREATE" "objectData c1 = Some d1" "p_id d1 = Some i1" "p_name d1 = Some nm"
    and c2: "action c2 = CREATE" "objectData c2 = Some d2" "p_id d2 = Some i2" "p_name d2 = Some nm"
    and ne: "i1 \<noteq> []" "i2 \<noteq> []" "i1 \<noteq> i2" "nm \<noteq> []"
  shows "map name (getObjects (processCommands gen [c1, c2] new_SceneManager)) = [nm, nm @ ''1'']"
proof -
  have one: "nm @ string_of_nat (Suc 0) \<notin> set [nm]"
    by simp
  have "next_candidate [nm] nm (Suc 0) = nm @ ''1''"
    using next_candidate_free [OF one] by simp
  then show ?thesis
    using assms
    by (simp add: processCommands_def processCommand_def modifiesScene_def saveState_def
        exportScene_def JSON_stringify_def map_values_def new_SceneManager_def maxHistory_def
        truthy_str_def Let_def getUniqueName_def taken_names_def created_object_def
        getObjects_def)
qed


text \<open>
  Claim C4, as the code has it. The script that makes two boxes and adds each under the
  name \<open>Cube\<close> returns exactly two objects, both named \<open>Cube\<close>: \<open>Add\<close> stores the
  name it is given. The names \<open>Cube\<close> and \<open>Cube1\<close> are what \<open>processCommands\<close>
  gives two objects created under the name \<open>Cube\<close> by CREATE commands with
  different identifiers.
\<close>

theorem two_cubes_scene_names:
  assumes c1: "action c1 = CREATE" "objectData c1 = Some d1" "p_id d1 = Some i1" "p_name d1 = Some ''Cube''"
    and c2: "action c2 = CREATE" "objectData c2 = Some d2" "p_id d2 = Some i2" "p_name d2 = Some ''Cube''"
    and ne: "i1 \<noteq> []" "i2 \<noteq> []" "i1 \<noteq> i2"
  shows "map_option (map_sum (\<lambda>e. e) (map name))
           (execute rt (Suc (Suc (Suc n))) (two_cubes (CallBox w1 h1 d1') (CallBox w2 h2 d2'))) =
         Some (Inr [''Cube'', ''Cube''])
       \<and> map name (getObjects (processCommands gen [c1, c2] new_SceneManager)) =
         [''Cube'', ''Cube1'']"
  using two_boxes_names [of rt n w1 h1 d1' w2 h2 d2'] create_two_same_name [OF c1 c2 ne, of gen]
  by simp

theorem two_cubes_scene_names_witness:
  "map_option (map_sum (\<lambda>e. e) (map name))
     (execute example_runtime (Suc (Suc (Suc 0)))
        (two_cubes (CallBox (Some (Finite 1)) (Some (Finite 1)) (Some (Finite 1)))
           (CallBox (Some (Finite 2)) (Some (Finite 2)) (Some (Finite 2))))) =
     Some (Inr [''Cube'', ''Cube''])
   \<and> map name (getObjects (processCommands (\<lambda>k. ''fresh'')
        [create_cube ''obj_0'', create_cube ''obj_1''] new_SceneManager)) = [''Cube'', ''Cube1'']"
  using two_cubes_scene_names [of "create_cube ''obj_0''" "the (objectData (create_cube ''obj_0''))" "''obj_0''"
      "create_cube ''obj_1''" "the (objectData (create_cube ''obj_1''))" "''obj_1''"
      example_runtime 0 "Some (Finite 1)" "Some (Finite 1)" "Some (Finite 1)"
      "Some (Finite 2)" "Some (Finite 2)" "Some (Finite 2)" "\<lambda>k. ''fresh''"]
  by (simp add: create_cube_def)

theorem two_cubes_counterexample:
  "map_option (map_sum (\<lambda>e. e) (map name))
     (execute example_runtime (Suc (Suc (Suc 0)))
        (two_cubes (CallBox (Some (Finite 1)) (Some (Finite 1)) (Some (Finite 1)))
           (CallBox (Some (Finite 1)) (Some (Finite 1)) (Some (Finite 1))))) =
     Some (Inr [''Cube'', ''Cube''])"
  by (simp add: two_cubes_def csg_defs nth_append)

subsection \<open>The same script, run twice\<close>

lemma same_result_Inl [simp]: "same_result (Inl f) r' = (r' = Inl f)"
  by (simp add: same_result_def)

lemma same_result_Inr [simp]:
  "same_result (Inr (v, st)) (Inr (v', st')) = (v = v' \<and> same_run st st')"
  "same_result (Inr (v, st)) (Inl f) = False"
  by (simp_all add: same_result_def)

lemma same_run_heap: "same_run st st' \<Longrightarrow> heap st = heap st'"
  by (simp add: same_run_def)

lemma same_run_put: "same_run st st' \<Longrightarrow> same_run (put_brush r b st) (put_brush r b st')"
  by (simp add: same_run_def put_brush_def)

lemma same_run_get: "same_run st st' \<Longrightarrow> get_brush st r = get_brush st' r"
  by (simp add: same_run_def get_brush_def)

lemma alloc_same:
  "same_run st st' \<Longrightarrow> same_result (Inr (alloc b st)) (Inr (alloc b st'))"
  by (simp add: same_run_def alloc_def)

lemma Box_same: "same_run st st' \<Longrightarrow> same_result (Inr (Box w h d st)) (Inr (Box w h d st'))"
  by (simp add: Box_def Let_def alloc_same)

lemma Sphere_same: "same_run st st' \<Longrightarrow> same_result (Inr (Sphere r st)) (Inr (Sphere r st'))"
  by (simp add: Sphere_def Let_def alloc_same)

lemma Cylinder_same:
  "same_run st st' \<Longrightarrow> same_result (Inr (Cylinder a b h st)) (Inr (Cylinder a b h st'))"
  by (simp add: Cylinder_def Let_def alloc_same)

lemma Move_same: "same_run st st' \<Longrightarrow> same_result (Move v x y z st) (Move v x y z st')"
  by (cases v) (auto simp: Move_def same_run_get [of st st'] same_run_put split: option.splits)

lemma Rotate_same: "same_run st st' \<Longrightarrow> same_result (Rotate v x y z st) (Rotate v x y z st')"
  by (cases v) (auto simp: Rotate_def same_run_get [of st st'] same_run_put split: option.splits)

lemma Scale_same: "same_run st st' \<Longrightarrow> same_result (Scale v x y z st) (Scale v x y z st')"
  by (cases v) (auto simp: Scale_def same_run_get [of st st'] same_run_put split: option.splits)

lemma Color_same: "same_run st st' \<Longrightarrow> same_result (Color v hex st) (Color v hex st')"
  by (cases v) (auto simp: Color_def Let_def same_run_get [of st st'] same_run_put split: option.splits)

lemma csg_brushes_same:
  assumes "same_run st st'"
  shows "same_result (csg operation (BrushRef ra) (BrushRef rb) st)
           (csg operation (BrushRef ra) (BrushRef rb) st')"
proof (cases "get_brush st ra")
  case None
  then show ?thesis
    using same_run_get [OF assms, of ra] by (simp add: csg_def truthy_def)
next
  case (Some ba)
  let ?s1 = "put_brush ra (updateMatrixWorld ba) st"
  let ?s1' = "put_brush ra (updateMatrixWorld ba) st'"
  have a': "get_brush st' ra = Some ba"
    using same_run_get [OF assms, of ra] Some by simp
  have r1: "same_run ?s1 ?s1'"
    using assms by (rule same_run_put)
  show ?thesis
  proof (cases "get_brush ?s1 rb")
    case None
    then show ?thesis
      using same_run_get [OF r1, of rb] Some a' by (simp add: csg_def truthy_def Let_def)
  next
    case (Some bb)
    let ?s2 = "put_brush rb (updateMatrixWorld bb) ?s1"
    let ?s2' = "put_brush rb (updateMatrixWorld bb) ?s1'"
    have b': "get_brush ?s1' rb = Some bb"
      using same_run_get [OF r1, of rb] Some by simp
    have r2: "same_run ?s2 ?s2'"
      using r1 by (rule same_run_put)
    have g: "get_brush ?s2' ra = get_brush ?s2 ra" "get_brush ?s2' rb = get_brush ?s2 rb"
      using same_run_get [OF r2] by simp_all
    show ?thesis
      using \<open>get_brush st ra = Some ba\<close> a' Some b' g alloc_same [OF r2]
      by (auto simp: csg_def truthy_def Let_def split: option.splits)
  qed
qed

lemma csg_same:
  assumes "same_run st st'"
  shows "same_result (csg operation a b st) (csg operation a b st')"
proof (cases "\<not> truthy a \<or> \<not> truthy b")
  case True
  then show ?thesis
    using assms by (auto simp: csg_def)
next
  case False
  show ?thesis
  proof (cases a)
    case (BrushRef ra)
    show ?thesis
    proof (cases b)
      case (BrushRef rb)
      with \<open>a = BrushRef ra\<close> show ?thesis
        using csg_brushes_same [OF assms] by simp
    qed (use False \<open>a = BrushRef ra\<close> same_run_get [OF assms, of ra] in
          \<open>auto simp: csg_def Let_def split: option.splits\<close>)
  qed (use False in \<open>auto simp: csg_def\<close>)
qed

lemma Add_same:
  assumes "same_run st st'" and "getHexString rt = getHexString rt'"
  shows "same_result (Add rt v nm st) (Add rt' v nm st')"
proof -
  have len: "length (ctx_objects st) = length (ctx_objects st')"
    using assms(1) by (metis length_map same_run_def)
  show ?thesis
    using assms len
    by (cases v)
       (auto simp: Add_def Let_def same_run_get [of st st'] same_run_def erase_id_def
             split: option.splits)
qed

lemma bind_same:
  assumes "same_result r r'"
    and "\<And>v s s'. same_run s s' \<Longrightarrow> same_result (k v s) (k' v s')"
  shows "same_result (case r of Inl f \<Rightarrow> Inl f | Inr (v, s) \<Rightarrow> k v s)
           (case r' of Inl f \<Rightarrow> Inl f | Inr (v, s) \<Rightarrow> k' v s)"
  using assms by (cases r; cases r') (auto simp: same_result_def)

lemma eval_same:
  assumes "getHexString rt = getHexString rt'" and "global_scope rt = global_scope rt'"
  shows "same_run st st' \<Longrightarrow> same_result (eval rt env e st) (eval rt' env e st')"
proof (induction e arbitrary: st st')
  case (Ident x)
  have "resolve rt x = resolve rt' x"
    using assms(2) by (simp add: resolve_def)
  with Ident show ?case
    by (simp split: option.splits)
next
  case (CallUnion e1 e2)
  show ?case
    unfolding eval.simps
    by (intro bind_same CallUnion.IH CallUnion.prems) (auto simp: Union_csg_def intro: csg_same)
next
  case (CallSubtract e1 e2)
  show ?case
    unfolding eval.simps
    by (intro bind_same CallSubtract.IH CallSubtract.prems) (auto simp: Subtract_def intro: csg_same)
next
  case (CallIntersect e1 e2)
  show ?case
    unfolding eval.simps
    by (intro bind_same CallIntersect.IH CallIntersect.prems) (auto simp: Intersect_def intro: csg_same)
next
  case (CallMove e x y z)
  show ?case
    unfolding eval.simps
    by (intro bind_same CallMove.IH CallMove.prems) (rule Move_same)
next
  case (CallRotate e x y z)
  show ?case
    unfolding eval.simps
    by (intro bind_same CallRotate.IH CallRotate.prems) (rule Rotate_same)
next
  case (CallScale e x y z)
  show ?case
    unfolding eval.simps
    by (intro bind_same CallScale.IH CallScale.prems) (rule Scale_same)
next
  case (CallColor e hex)
  show ?case
    unfolding eval.simps
    by (intro bind_same CallColor.IH CallColor.prems) (rule Color_same)
next
  case (CallAdd e nm)
  show ?case
    unfolding eval.simps
    by (intro bind_same CallAdd.IH CallAdd.prems) (rule Add_same [OF _ assms(1)])
qed (simp_all add: Box_same Sphere_same Cylinder_same)

lemma exec_same:
  assumes "getHexString rt = getHexString rt'" and "global_scope rt = global_scope rt'"
  shows "same_run st st' \<Longrightarrow> same_end (exec rt n stmts env st) (exec rt' n stmts env st')"
proof (induction n arbitrary: stmts env st st')
  case 0
  show ?case by (simp add: same_end_def)
next
  case (Suc n)
  show ?case
  proof (cases stmts)
    case Nil
    with Suc.prems show ?thesis by (simp add: same_end_def)
  next
    case (Cons s rest)
    show ?thesis
    proof (cases s)
      case (Const e)
      have "same_result (eval rt env e st) (eval rt' env e st')"
        using assms Suc.prems by (rule eval_same)
      then show ?thesis
        using Suc.IH
        by (cases "eval rt env e st"; cases "eval rt' env e st'")
           (auto simp: Cons Const same_end_def)
    next
      case (ExprStmt e)
      have "same_result (eval rt env e st) (eval rt' env e st')"
        using assms Suc.prems by (rule eval_same)
      then show ?thesis
        using Suc.IH
        by (cases "eval rt env e st"; cases "eval rt' env e st'")
           (auto simp: Cons ExprStmt same_end_def)
    next
      case (While c body)
      have "same_result (eval rt env c st) (eval rt' env c st')"
        using assms Suc.prems by (rule eval_same)
      then show ?thesis
        using Suc.IH
        by (cases "eval rt env c st"; cases "eval rt' env c st'")
           (auto simp: Cons While same_end_def)
    qed
  qed
qed

lemma ids_from_clock_snoc:
  assumes "ids_from_clock rt objs"
    and "id obj = object_id (length objs) (Date_now rt (length objs))"
  shows "ids_from_clock rt (objs @ [obj])"
  using assms by (simp add: ids_from_clock_def)

lemma Move_objects: "Move v x y z st = Inr (v', st') \<Longrightarrow> ctx_objects st' = ctx_objects st"
  by (cases v) (auto simp: Move_def put_brush_def split: option.splits if_splits)

lemma Rotate_objects: "Rotate v x y z st = Inr (v', st') \<Longrightarrow> ctx_objects st' = ctx_objects st"
  by (cases v) (auto simp: Rotate_def put_brush_def split: option.splits if_splits)

lemma Scale_objects: "Scale v x y z st = Inr (v', st') \<Longrightarrow> ctx_objects st' = ctx_objects st"
  by (cases v) (auto simp: Scale_def put_brush_def split: option.splits if_splits)

lemma Color_objects: "Color v hex st = Inr (v', st') \<Longrightarrow> ctx_objects st' = ctx_objects st"
  by (cases v) (auto simp: Color_def Let_def put_brush_def split: option.splits if_splits)

lemma csg_objects: "csg operation a b st = Inr (v', st') \<Longrightarrow> ctx_objects st' = ctx_objects st"
  by (cases a; cases b)
     (auto simp: csg_def Let_def put_brush_def alloc_def split: option.splits if_splits)

lemma Add_ids:
  assumes "Add rt v nm st = Inr (v', st')" and "ids_from_clock rt (ctx_objects st)"
  shows "ids_from_clock rt (ctx_objects st')"
  using assms
  by (cases v)
     (auto simp: Add_def Let_def ids_from_clock_snoc split: option.splits if_splits)

lemma eval_ids:
  "eval rt env e st = Inr (v, st') \<Longrightarrow> ids_from_clock rt (ctx_objects st) \<Longrightarrow>
   ids_from_clock rt (ctx_objects st')"
proof (induction e arbitrary: st v st')
  case (CallUnion e1 e2)
  then show ?case
    by (auto simp: Union_csg_def split: sum.splits dest!: csg_objects)
next
  case (CallSubtract e1 e2)
  then show ?case
    by (auto simp: Subtract_def split: sum.splits dest!: csg_objects)
next
  case (CallIntersect e1 e2)
  then show ?case
    by (auto simp: Intersect_def split: sum.splits dest!: csg_objects)
next
  case (CallMove e x y z)
  then show ?case
    by (auto split: sum.splits dest!: Move_objects)
next
  case (CallRotate e x y z)
  then show ?case
    by (auto split: sum.splits dest!: Rotate_objects)
next
  case (CallScale e x y z)
  then show ?case
    by (auto split: sum.splits dest!: Scale_objects)
next
  case (CallColor e hex)
  then show ?case
    by (auto split: sum.splits dest!: Color_objects)
next
  case (CallAdd e nm)
  then show ?case
    by (auto split: sum.splits dest: Add_ids)
next
  case (CallBox w h d)
  then show ?case
    using Box_result(3) [of "default_arg w (Finite 1)" "default_arg h (Finite 1)" "default_arg d (Finite 1)" st]
    by auto
next
  case (CallSphere r)
  then show ?case
    using Sphere_result(3) [of "default_arg r (Finite 0.5)" st] by auto
next
  case (CallCylinder a b h)
  then show ?case
    using Cylinder_result(3) [of "default_arg a (Finite 0.5)" "default_arg b (Finite 0.5)" "default_arg h (Finite 1)" st]
    by auto
qed (auto split: if_splits option.splits)

lemma exec_ids:
  "exec rt n stmts env st = Some (Inr st') \<Longrightarrow> ids_from_clock rt (ctx_objects st) \<Longrightarrow>
   ids_from_clock rt (ctx_objects st')"
proof (induction n arbitrary: stmts env st)
  case 0
  then show ?case by simp
next
  case (Suc n)
  show ?case
  proof (cases stmts)
    case Nil
    with Suc.prems show ?thesis by simp
  next
    case (Cons s rest)
    show ?thesis
    proof (cases s)
      case (Const e)
      with Suc Cons show ?thesis
        by (auto split: sum.splits dest: eval_ids)
    next
      case (ExprStmt e)
      with Suc Cons show ?thesis
        by (auto split: sum.splits dest: eval_ids)
    next
      case (While c body)
      with Suc Cons show ?thesis
        by (auto split: sum.splits if_splits dest: eval_ids)
    qed
  qed
qed


text \<open>A builtin call of the fragment is the call of the general model.\<close>

lemma eval_call:
  "eval rt env (CallBox w h d) st = call rt (Call_Box w h d) st"
  "eval rt env (CallSphere r) st = call rt (Call_Sphere r) st"
  "eval rt env (CallCylinder rtop rbottom h) st = call rt (Call_Cylinder rtop rbottom h) st"
  "eval rt env (CallMove e x y z) st =
     (case eval rt env e st of Inl f \<Rightarrow> Inl f | Inr (v, st1) \<Rightarrow> call rt (Call_Move v x y z) st1)"
  "eval rt env (CallRotate e x y z) st =
     (case eval rt env e st of Inl f \<Rightarrow> Inl f | Inr (v, st1) \<Rightarrow> call rt (Call_Rotate v x y z) st1)"
  "eval rt env (CallScale e x y z) st =
     (case eval rt env e st of Inl f \<Rightarrow> Inl f | Inr (v, st1) \<Rightarrow> call rt (Call_Scale v x y z) st1)"
  "eval rt env (CallColor e hex) st =
     (case eval rt env e st of Inl f \<Rightarrow> Inl f | Inr (v, st1) \<Rightarrow> call rt (Call_Color v hex) st1)"
  "eval rt env (CallUnion e1 e2) st =
     (case eval rt env e1 st of
        Inl f \<Rightarrow> Inl f
      | Inr (a, st1) \<Rightarrow>
          (case eval rt env e2 st1 of Inl f \<Rightarrow> Inl f | Inr (b, st2) \<Rightarrow> call rt (Call_Union a b) st2))"
  "eval rt env (CallSubtract e1 e2) st =
     (case eval rt env e1 st of
        Inl f \<Rightarrow> Inl f
      | Inr (a, st1) \<Rightarrow>
          (case eval rt env e2 st1 of Inl f \<Rightarrow> Inl f | Inr (b, st2) \<Rightarrow> call rt (Call_Subtract a b) st2))"
  "eval rt env (CallIntersect e1 e2) st =
     (case eval rt env e1 st of
        Inl f \<Rightarrow> Inl f
      | Inr (a, st1) \<Rightarrow>
          (case eval rt env e2 st1 of Inl f \<Rightarrow> Inl f | Inr (b, st2) \<Rightarrow> call rt (Call_Intersect a b) st2))"
  "eval rt env (CallAdd e nm) st =
     (case eval rt env e st of Inl f \<Rightarrow> Inl f | Inr (v, st1) \<Rightarrow> call rt (Call_Add v nm) st1)"
  by (simp_all split: sum.splits)

lemma starter_cube_objects:
  "execute_code rt host (Suc (Suc (Suc (Suc n)))) (Behaviour starter_cube_code) =
     Some (Inr [\<lparr>id = object_id 0 (Date_now rt 0), name = ''Starter Cube'', type = MESH,
                 position = (Finite 0, Finite 0, Finite 0),
                 rotation = (Finite 0, Finite 0, Finite 0),
                 scale = (Finite 1, Finite 1, Finite 1),
                 color = ''#'' @ getHexString rt (ColorSet ''#3b82f6'' (ColorHex 0xcccccc)),
                 args = None, selected = Some False, visible = Some True,
                 geometryData = Some (BoxGeometry (Finite 1) (Finite 1) (Finite 1))\<rparr>])"
  by (simp add: execute_code_def new_CADContext_def Box_def Color_def Add_def Let_def alloc_def
      get_brush_def put_brush_def new_Brush_def updateMatrixWorld_def truthy_def getResults_def
      context_material_def default_arg_def)

lemma starter_cube_either_way:
  "execute rt (Suc (Suc (Suc (Suc n)))) starter_cube =
     map_option (map_sum (\<lambda>e. SyntaxError) (\<lambda>objs. objs))
       (execute_code rt host (Suc (Suc (Suc (Suc n)))) (Behaviour starter_cube_code))"
  unfolding starter_cube_objects
  by (simp add: starter_cube_def execute_def new_CADContext_def Box_def Color_def Add_def Let_def alloc_def
      get_brush_def put_brush_def new_Brush_def updateMatrixWorld_def truthy_def getResults_def
      context_material_def default_arg_def)

text \<open>The runs of a script in general.\<close>

lemma call_same:
  assumes "same_run st st'" and "getHexString rt = getHexString rt'"
  shows "same_result (call rt c st) (call rt' c st')"
  using assms
  by (cases c)
     (simp_all add: Box_same Sphere_same Cylinder_same Move_same Rotate_same Scale_same
        Color_same csg_same Add_same Union_csg_def Subtract_def Intersect_def)

lemma csg_fault_same: "same_run st st' \<Longrightarrow> same_run (csg_fault a st) (csg_fault a st')"
  using same_run_get [of st st'] same_run_put [of st st']
  by (auto simp: csg_fault_def split: JSValue.splits option.splits)

lemma after_fault_same: "same_run st st' \<Longrightarrow> same_run (after_fault c st) (after_fault c st')"
  by (cases c) (simp_all add: csg_fault_same)

lemma consult_same: "global_scope rt = global_scope rt' \<Longrightarrow> consult rt = consult rt'"
  by (auto simp: consult_def resolve_def fun_eq_iff)

lemma func_same:
  assumes "getHexString rt = getHexString rt'" and "global_scope rt = global_scope rt'"
    and "alters_all blind (Behaviour script)"
  shows "same_run st st' \<Longrightarrow>
         same_finish (func rt host n script seen st) (func rt' host n script seen st')"
proof (induction n arbitrary: seen st st')
  case 0
  show ?case by (simp add: same_finish_def)
next
  case (Suc n)
  show ?case
  proof (cases "script seen")
    case (Invoke c)
    have "same_result (call rt c st) (call rt' c st')"
      using Suc.prems assms(1) by (rule call_same)
    then show ?thesis
      using Suc.IH [OF after_fault_same [OF Suc.prems]] Suc.IH
      by (cases "call rt c st"; cases "call rt' c st'") (auto simp: Invoke)
  next
    case (Consult x)
    then show ?thesis
      using Suc.IH [OF Suc.prems] consult_same [OF assms(2)] by simp
  next
    case (Alter f)
    then have "blind f"
      using assms(3) by simp
    then have "same_run (f st) (f st')"
      using Suc.prems by (simp add: blind_def)
    then show ?thesis
      using Suc.IH Alter by simp
  next
    case Finish
    then show ?thesis
      using Suc.prems by (simp add: same_finish_def)
  next
    case (Throw e)
    then show ?thesis
      by (simp add: same_finish_def)
  next
    case Hang
    then show ?thesis
      by (simp add: same_finish_def)
  qed
qed

lemma call_ids:
  assumes "call rt c st = Inr (v, st')" and "ids_from_clock rt (ctx_objects st)"
  shows "ids_from_clock rt (ctx_objects st')"
proof (cases c)
  case (Call_Box w h d)
  with assms show ?thesis
    using Box_result(3) [of "default_arg w (Finite 1)" "default_arg h (Finite 1)" "default_arg d (Finite 1)" st]
    by auto
next
  case (Call_Sphere r)
  with assms show ?thesis
    using Sphere_result(3) [of "default_arg r (Finite 0.5)" st] by auto
next
  case (Call_Cylinder a b h)
  with assms show ?thesis
    using Cylinder_result(3) [of "default_arg a (Finite 0.5)" "default_arg b (Finite 0.5)" "default_arg h (Finite 1)" st]
    by auto
next
  case (Call_Add m nm)
  with assms show ?thesis
    by (auto dest: Add_ids)
qed (use assms in \<open>auto simp: Union_csg_def Subtract_def Intersect_def
       dest!: Move_objects Rotate_objects Scale_objects Color_objects csg_objects\<close>)

lemma after_fault_objects: "ctx_objects (after_fault c st) = ctx_objects st"
  by (cases c) (auto simp: csg_fault_def put_brush_def split: JSValue.splits option.splits)

lemma func_ids:
  assumes "alters_all keeps_ids (Behaviour script)"
  shows "func rt host n script seen st = Some (Inr st') \<Longrightarrow>
         ids_from_clock rt (ctx_objects st) \<Longrightarrow> ids_from_clock rt (ctx_objects st')"
proof (induction n arbitrary: seen st)
  case 0
  then show ?case by simp
next
  case (Suc n)
  show ?case
  proof (cases "script seen")
    case (Alter f)
    then have "keeps_ids f"
      using assms by simp
    then have "map id (ctx_objects (f st)) = map id (ctx_objects st)"
      by (simp add: keeps_ids_def)
    then have "ids_from_clock rt (ctx_objects (f st))"
      using Suc.prems(2) by (metis ids_from_clock_def length_map)
    then show ?thesis
      using Suc.IH Suc.prems(1) Alter by simp
  next
    case (Invoke c)
    show ?thesis
    proof (cases "call rt c st")
      case (Inl f)
      with Suc Invoke show ?thesis
        by (auto simp: after_fault_objects)
    next
      case (Inr p)
      with Suc Invoke show ?thesis
        by (cases p) (auto dest: call_ids)
    qed
  qed (use Suc in auto)
qed

lemma look_erase_id: "look (erase_id obj) = look obj"
  by (simp add: look_def erase_id_def)

lemma same_run_look:
  assumes "same_run st st'"
  shows "map look (ctx_objects st) = map look (ctx_objects st')"
proof -
  have "map look (map erase_id (ctx_objects st)) = map look (map erase_id (ctx_objects st'))"
    using assms by (simp add: same_run_def)
  then show ?thesis
    by (simp add: look_erase_id o_def)
qed

lemma starter_cube_code_steps: "starter_cube_code seen \<noteq> Alter f"
  by (cases seen rule: starter_cube_code.cases) (auto split: Observation.splits)

text \<open>
  Claim C3, as the code has it. Run the same script text twice, at different readings
  of the clock, and let the script read the same in both runs from whatever it reads
  outside the builtins. If no direct change that the script makes to the brushes and to
  the objects of the context depends on the identifiers, the two runs end alike (both
  still running, both with the same error, or both with a result list), and the result
  lists have the same number of objects with the same kinds, transforms and colours, in
  the same order. The identifiers are made inside the run, by \<open>Add\<close>: if no direct
  change of the script touches the identifiers, the \<open>k\<close>-th object of the result
  has \<open>obj_k_t\<close> with \<open>t\<close> the reading of the clock when it was added; the
  caller supplies none of them. The programs of the fragment make no direct changes,
  and the same holds for them.
\<close>

theorem same_script_same_objects:
  "(alters_all blind code \<longrightarrow>
      map_option (map_sum (\<lambda>e. e) (map look))
        (execute_code (rt\<lparr>Date_now := clock\<rparr>) host steps code) =
      map_option (map_sum (\<lambda>e. e) (map look)) (execute_code rt host steps code))
   \<and> (alters_all keeps_ids code \<and> execute_code rt host steps code = Some (Inr objs) \<longrightarrow>
        map id objs = map (\<lambda>k. object_id k (Date_now rt k)) [0..<length objs])
   \<and> map_option (map_sum (\<lambda>e. e) (map look)) (execute (rt\<lparr>Date_now := clock\<rparr>) steps program) =
     map_option (map_sum (\<lambda>e. e) (map look)) (execute rt steps program)
   \<and> (execute rt steps program = Some (Inr objs') \<longrightarrow>
        map id objs' = map (\<lambda>k. object_id k (Date_now rt k)) [0..<length objs'])"
proof -
  let ?rt' = "rt\<lparr>Date_now := clock\<rparr>"
  have hex: "getHexString ?rt' = getHexString rt" and scope: "global_scope ?rt' = global_scope rt"
    by simp_all
  have start: "same_run new_CADContext new_CADContext"
    by (simp add: same_run_def)
  have ids0: "ids_from_clock rt (ctx_objects new_CADContext)"
    by (simp add: ids_from_clock_def new_CADContext_def)
  have one: "map_option (map_sum (\<lambda>e. e) (map look)) (execute_code ?rt' host steps code) =
      map_option (map_sum (\<lambda>e. e) (map look)) (execute_code rt host steps code)"
    if b: "alters_all blind code"
  proof (cases code)
    case No_parse
    then show ?thesis by (simp add: execute_code_def)
  next
    case (Behaviour script)
    have "same_finish (func ?rt' host steps script [] new_CADContext)
            (func rt host steps script [] new_CADContext)"
      using hex scope b [unfolded Behaviour] start by (rule func_same)
    then show ?thesis
      by (auto simp: Behaviour execute_code_def same_finish_def getResults_def
            split: option.splits sum.splits dest: same_run_look)
  qed
  have two: "map id objs = map (\<lambda>k. object_id k (Date_now rt k)) [0..<length objs]"
    if k: "alters_all keeps_ids code" and r: "execute_code rt host steps code = Some (Inr objs)"
  proof -
    from r obtain script st where c: "code = Behaviour script"
      and "func rt host steps script [] new_CADContext = Some (Inr st)"
      and "objs = ctx_objects st"
      by (auto simp: execute_code_def getResults_def split: Code.splits option.splits sum.splits)
    then have "ids_from_clock rt objs"
      using func_ids [OF k [unfolded c]] ids0 by blast
    then show ?thesis
      by (simp add: ids_from_clock_def)
  qed
  have three: "map_option (map_sum (\<lambda>e. e) (map look)) (execute ?rt' steps program) =
      map_option (map_sum (\<lambda>e. e) (map look)) (execute rt steps program)"
  proof (cases program)
    case Unparsable
    then show ?thesis by (simp add: execute_def)
  next
    case (Program stmts)
    have "same_end (exec ?rt' steps stmts [] new_CADContext) (exec rt steps stmts [] new_CADContext)"
      using hex scope start by (rule exec_same)
    then show ?thesis
      by (auto simp: Program execute_def same_end_def getResults_def
            split: option.splits sum.splits dest: same_run_look)
  qed
  have four: "map id objs' = map (\<lambda>k. object_id k (Date_now rt k)) [0..<length objs']"
    if "execute rt steps program = Some (Inr objs')"
  proof -
    from that obtain stmts st where "exec rt steps stmts [] new_CADContext = Some (Inr st)"
      and "objs' = ctx_objects st"
      by (auto simp: execute_def getResults_def split: Script.splits option.splits sum.splits)
    then have "ids_from_clock rt objs'"
      using exec_ids ids0 by blast
    then show ?thesis
      by (simp add: ids_from_clock_def)
  qed
  from one two three four show ?thesis
    by blast
qed

theorem same_script_same_objects_witness:
  "alters_all blind (Behaviour starter_cube_code)
   \<and> alters_all keeps_ids (Behaviour starter_cube_code)
   \<and> map_option (map_sum (\<lambda>e. e) (map look))
     (execute_code later_runtime low_host (Suc (Suc (Suc (Suc 0)))) (Behaviour starter_cube_code)) =
   map_option (map_sum (\<lambda>e. e) (map look))
     (execute_code example_runtime low_host (Suc (Suc (Suc (Suc 0)))) (Behaviour starter_cube_code))
   \<and> map_option (map_sum (\<lambda>e. e) (map look))
     (execute_code example_runtime low_host (Suc (Suc (Suc (Suc 0)))) (Behaviour starter_cube_code)) =
     Some (Inr [(MESH, (Finite 0, Finite 0, Finite 0), (Finite 0, Finite 0, Finite 0),
                 (Finite 1, Finite 1, Finite 1), ''#3b82f6'')])
   \<and> map_option (map_sum (\<lambda>e. e) (map id))
     (execute_code example_runtime low_host (Suc (Suc (Suc (Suc 0)))) (Behaviour starter_cube_code)) =
     Some (Inr [object_id 0 (Date_now example_runtime 0)])"
proof -
  let ?run = "execute_code example_runtime low_host (Suc (Suc (Suc (Suc 0)))) (Behaviour starter_cube_code)"
  let ?obj = "\<lparr>id = object_id 0 (Date_now example_runtime 0), name = ''Starter Cube'', type = MESH,
                 position = (Finite 0, Finite 0, Finite 0),
                 rotation = (Finite 0, Finite 0, Finite 0),
                 scale = (Finite 1, Finite 1, Finite 1),
                 color = ''#'' @ getHexString example_runtime (ColorSet ''#3b82f6'' (ColorHex 0xcccccc)),
                 args = None, selected = Some False, visible = Some True,
                 geometryData = Some (BoxGeometry (Finite 1) (Finite 1) (Finite 1))\<rparr>"
  note main = same_script_same_objects [where rt = example_runtime
      and clock = "\<lambda>k. 1700000000123" and host = low_host and steps = "Suc (Suc (Suc (Suc 0)))"
      and code = "Behaviour starter_cube_code" and objs = "[?obj]"]
  have h1: "alters_all blind (Behaviour starter_cube_code)"
    and h2: "alters_all keeps_ids (Behaviour starter_cube_code)"
    by (simp_all add: starter_cube_code_steps)
  have r: "?run = Some (Inr [?obj])"
    by (rule starter_cube_objects)
  have a: "map_option (map_sum (\<lambda>e. e) (map look))
     (execute_code later_runtime low_host (Suc (Suc (Suc (Suc 0)))) (Behaviour starter_cube_code)) =
     map_option (map_sum (\<lambda>e. e) (map look)) ?run"
    unfolding later_runtime_def using h1 by (rule conjunct1 [OF main, THEN mp])
  have b: "map_option (map_sum (\<lambda>e. e) (map look)) ?run =
     Some (Inr [(MESH, (Finite 0, Finite 0, Finite 0), (Finite 0, Finite 0, Finite 0),
                 (Finite 1, Finite 1, Finite 1), ''#3b82f6'')])"
    by (simp only: r) (simp add: look_def example_runtime_def)
  have "map id [?obj] = map (\<lambda>k. object_id k (Date_now example_runtime k)) [0..<length [?obj]]"
    using conjI [OF h2 r] by (rule conjunct1 [OF conjunct2 [OF main], THEN mp])
  then have c: "map_option (map_sum (\<lambda>e. e) (map id)) ?run =
     Some (Inr [object_id 0 (Date_now example_runtime 0)])"
    by (simp only: r) simp
  from h1 h2 a b c show ?thesis
    by (intro conjI)
qed

lemma three_steps_objects:
  assumes "script [] = Invoke (Call_Box None None None)"
    and "script [Returned (BrushRef 0)] = Invoke (Call_Add (BrushRef 0) nm)"
    and "script [Returned (BrushRef 0), Returned Undefined] = Alter f"
    and "script [Returned (BrushRef 0), Returned Undefined, Altered] = Finish"
  shows "execute_code rt host (Suc (Suc (Suc (Suc n)))) (Behaviour script) =
     Some (Inr (ctx_objects (f
       \<lparr>heap = [updateMatrixWorld
                  ((new_Brush (BoxGeometry (Finite 1) (Finite 1) (Finite 1)) context_material)
                     \<lparr>userData_type := Some BOX\<rparr>)],
        ctx_objects =
          [\<lparr>id = object_id 0 (Date_now rt 0), name = nm, type = MESH,
            position = (Finite 0, Finite 0, Finite 0),
            rotation = (Finite 0, Finite 0, Finite 0),
            scale = (Finite 1, Finite 1, Finite 1),
            color = ''#'' @ getHexString rt context_material,
            args = None, selected = Some False, visible = Some True,
            geometryData = Some (BoxGeometry (Finite 1) (Finite 1) (Finite 1))\<rparr>]\<rparr>)))"
  using assms
  by (simp add: execute_code_def new_CADContext_def Box_def Add_def Let_def alloc_def
      get_brush_def new_Brush_def updateMatrixWorld_def truthy_def getResults_def
      default_arg_def)

lemma own_id_writes_ids: "\<not> alters_all keeps_ids (Behaviour own_id)"
proof
  assume "alters_all keeps_ids (Behaviour own_id)"
  then have "keeps_ids (\<lambda>st. st\<lparr>ctx_objects := map (\<lambda>obj. obj\<lparr>id := ''mine''\<rparr>) (ctx_objects st)\<rparr>)"
    using own_id.simps(3) [of Undefined Undefined] by (simp del: own_id.simps)
  from this [unfolded keeps_ids_def, THEN spec,
      of "\<lparr>heap = [], ctx_objects =
          [\<lparr>id = ''obj_0_1700000000000'', name = ''Mine'', type = MESH,
            position = (Finite 0, Finite 0, Finite 0),
            rotation = (Finite 0, Finite 0, Finite 0),
            scale = (Finite 1, Finite 1, Finite 1),
            color = ''#cccccc'',
            args = None, selected = Some False, visible = Some True,
            geometryData = None\<rparr>]\<rparr>"]
  show False
    by simp
qed

lemma picky_reads_ids: "\<not> alters_all blind (Behaviour picky)"
proof
  let ?f = "\<lambda>st. if map id (ctx_objects st) = [''obj_0_1700000000000'']
                then st\<lparr>ctx_objects := butlast (ctx_objects st)\<rparr> else st"
  let ?o = "\<lambda>i. \<lparr>id = i, name = ''Picky'', type = MESH,
            position = (Finite 0, Finite 0, Finite 0),
            rotation = (Finite 0, Finite 0, Finite 0),
            scale = (Finite 1, Finite 1, Finite 1),
            color = ''#cccccc'',
            args = None, selected = Some False, visible = Some True,
            geometryData = None\<rparr>"
  let ?st = "\<lambda>i. \<lparr>heap = [], ctx_objects = [?o i]\<rparr>"
  assume "alters_all blind (Behaviour picky)"
  then have "blind ?f"
    using picky.simps(3) [of Undefined Undefined] by (simp del: picky.simps)
  moreover have "same_run (?st ''obj_0_1700000000000'') (?st ''obj_0_1700000000123'')"
    by (simp add: same_run_def erase_id_def)
  ultimately have "same_run (?f (?st ''obj_0_1700000000000'')) (?f (?st ''obj_0_1700000000123''))"
    unfolding blind_def by blast
  then show False
    by (simp add: same_run_def)
qed

theorem identifiers_from_clock_counterexample:
  "map_option (map_sum (\<lambda>e. e) (map id))
     (execute_code example_runtime low_host (Suc (Suc (Suc (Suc 0)))) (Behaviour starter_cube_code)) =
     Some (Inr [''obj_0_1700000000000''])
   \<and> map_option (map_sum (\<lambda>e. e) (map id))
     (execute_code later_runtime low_host (Suc (Suc (Suc (Suc 0)))) (Behaviour starter_cube_code)) =
     Some (Inr [''obj_0_1700000000123''])
   \<and> map_option (map_sum (\<lambda>e. e) (map id))
     (execute example_runtime (Suc (Suc (Suc (Suc 0)))) starter_cube) =
     Some (Inr [''obj_0_1700000000000''])
   \<and> map_option (map_sum (\<lambda>e. e) (map id))
     (execute later_runtime (Suc (Suc (Suc (Suc 0)))) starter_cube) =
     Some (Inr [''obj_0_1700000000123''])
   \<and> map_option (map_sum (\<lambda>e. e) (map look))
     (execute_code example_runtime low_host (Suc (Suc (Suc (Suc 0)))) (Behaviour lucky_cube)) =
     Some (Inr [(MESH, (Finite 0, Finite 0, Finite 0), (Finite 0, Finite 0, Finite 0),
                 (Finite 1, Finite 1, Finite 1), ''#cccccc'')])
   \<and> map_option (map_sum (\<lambda>e. e) (map look))
     (execute_code example_runtime high_host (Suc (Suc (Suc (Suc 0)))) (Behaviour lucky_cube)) =
     Some (Inr [])
   \<and> map_option (map_sum (\<lambda>e. e) (map look))
     (execute_code example_runtime low_host (Suc (Suc (Suc (Suc 0)))) (Behaviour picky)) =
     Some (Inr [])
   \<and> map_option (map_sum (\<lambda>e. e) (map look))
     (execute_code later_runtime low_host (Suc (Suc (Suc (Suc 0)))) (Behaviour picky)) =
     Some (Inr [(MESH, (Finite 0, Finite 0, Finite 0), (Finite 0, Finite 0, Finite 0),
                 (Finite 1, Finite 1, Finite 1), ''#cccccc'')])
   \<and> map_option (map_sum (\<lambda>e. e) (map id))
     (execute_code example_runtime low_host (Suc (Suc (Suc (Suc 0)))) (Behaviour own_id)) =
     Some (Inr [''mine''])
   \<and> \<not> alters_all blind (Behaviour picky)
   \<and> \<not> alters_all keeps_ids (Behaviour own_id)"
proof -
  have a: "map_option (map_sum (\<lambda>e. e) (map id))
     (execute_code example_runtime low_host (Suc (Suc (Suc (Suc 0)))) (Behaviour starter_cube_code)) =
     Some (Inr [''obj_0_1700000000000''])"
    by (simp add: starter_cube_objects object_id_def example_runtime_def digit_char_def)
  have b: "map_option (map_sum (\<lambda>e. e) (map id))
     (execute_code later_runtime low_host (Suc (Suc (Suc (Suc 0)))) (Behaviour starter_cube_code)) =
     Some (Inr [''obj_0_1700000000123''])"
    by (simp add: starter_cube_objects object_id_def later_runtime_def digit_char_def)
  have c: "map_option (map_sum (\<lambda>e. e) (map id))
     (execute example_runtime (Suc (Suc (Suc (Suc 0)))) starter_cube) =
     Some (Inr [''obj_0_1700000000000''])
   \<and> map_option (map_sum (\<lambda>e. e) (map id))
     (execute later_runtime (Suc (Suc (Suc (Suc 0)))) starter_cube) =
     Some (Inr [''obj_0_1700000000123''])"
    by (simp add: starter_cube_def later_runtime_def csg_defs example_runtime_def digit_char_def)
  have d: "map_option (map_sum (\<lambda>e. e) (map look))
     (execute_code example_runtime low_host (Suc (Suc (Suc (Suc 0)))) (Behaviour lucky_cube)) =
     Some (Inr [(MESH, (Finite 0, Finite 0, Finite 0), (Finite 0, Finite 0, Finite 0),
                 (Finite 1, Finite 1, Finite 1), ''#cccccc'')])"
    by (simp add: execute_code_def consult_def resolve_def builtin_names_def low_host_def
        example_runtime_def new_CADContext_def Box_def Add_def Let_def alloc_def
        get_brush_def new_Brush_def updateMatrixWorld_def truthy_def getResults_def
        context_material_def default_arg_def look_def)
  have e: "map_option (map_sum (\<lambda>e. e) (map look))
     (execute_code example_runtime high_host (Suc (Suc (Suc (Suc 0)))) (Behaviour lucky_cube)) =
     Some (Inr [])"
    by (simp add: execute_code_def consult_def resolve_def builtin_names_def high_host_def
        example_runtime_def new_CADContext_def getResults_def)
  have f: "map_option (map_sum (\<lambda>e. e) (map look))
     (execute_code example_runtime low_host (Suc (Suc (Suc (Suc 0)))) (Behaviour picky)) =
     Some (Inr [])"
    by (subst three_steps_objects [where nm = "''Picky''"], simp, simp, simp, simp)
       (simp add: object_id_def example_runtime_def digit_char_def)
  have g: "map_option (map_sum (\<lambda>e. e) (map look))
     (execute_code later_runtime low_host (Suc (Suc (Suc (Suc 0)))) (Behaviour picky)) =
     Some (Inr [(MESH, (Finite 0, Finite 0, Finite 0), (Finite 0, Finite 0, Finite 0),
                 (Finite 1, Finite 1, Finite 1), ''#cccccc'')])"
    by (subst three_steps_objects [where nm = "''Picky''"], simp, simp, simp, simp)
       (simp add: object_id_def later_runtime_def example_runtime_def digit_char_def look_def
          context_material_def)
  have h: "map_option (map_sum (\<lambda>e. e) (map id))
     (execute_code example_runtime low_host (Suc (Suc (Suc (Suc 0)))) (Behaviour own_id)) =
     Some (Inr [''mine''])"
    by (subst three_steps_objects [where nm = "''Mine''"], simp, simp, simp, simp) simp
  from a b c d e f g h picky_reads_ids own_id_writes_ids show ?thesis
    by (intro conjI) simp_all
qed

end
